theory Spec2Isabelle
  imports Main "HOL-Library.Sublist"
begin

section \<open>Python values shared by the two adapters\<close>

text \<open>
  A Python \<open>str\<close> is modelled as the list of its characters, one list element for each
  character. The functions below only compare against ASCII characters, concatenate,
  and count characters. The one literal of the source that is not ASCII, the label in
  the placeholder of \<open>get_stock_info\<close>, is given by its UTF-8 bytes; nothing measures
  its length.

  A raised exception is a value: fallible code returns \<open>exn + 'a\<close>, with \<open>Inl\<close> the
  exception that escapes. Every exception here is a subclass of \<open>Exception\<close>, which is
  what the handlers of the source catch.
\<close>

datatype exn = Exception string

datatype pyval = PyNone | PyStr string | PyInt int

text \<open>A dict with string keys, in insertion order.\<close>

type_synonym pydict = "(string \<times> pyval) list"

text \<open>
  \<open>str.replace(old, new)\<close>: scanning from the left, each occurrence of \<open>old\<close> that does
  not overlap an earlier one is replaced. (With an empty \<open>old\<close>, Python puts \<open>new\<close>
  before every character and at the end.)
\<close>

fun py_replace :: "string \<Rightarrow> string \<Rightarrow> string \<Rightarrow> string" where
  "py_replace old new [] = (if old = [] then new else [])"
| "py_replace old new (c # cs) =
     (if old = [] then new @ c # py_replace old new cs
      else if prefix old (c # cs) then new @ py_replace old new (drop (length old - 1) cs)
      else c # py_replace old new cs)"

definition startswith :: "string \<Rightarrow> string \<Rightarrow> bool" where
  "startswith s p = prefix p s"

text \<open>Decimal digits: \<open>str(n)\<close> for a natural number, and the zero-padded fixed width form.\<close>

definition digit_char :: "nat \<Rightarrow> char" where
  "digit_char d = ''0123456789'' ! d"

function str_nat :: "nat \<Rightarrow> string" where
  "str_nat n = (if n < 10 then [digit_char n] else str_nat (n div 10) @ [digit_char (n mod 10)])"
  by pat_completeness auto
termination
  by (relation "measure id") auto

declare str_nat.simps [simp del]

definition str_int :: "int \<Rightarrow> string" where
  "str_int i = (if i < 0 then ''-'' @ str_nat (nat (- i)) else str_nat (nat i))"

fun zero_padded :: "nat \<Rightarrow> nat \<Rightarrow> string" where
  "zero_padded 0 n = []"
| "zero_padded (Suc w) n = zero_padded w (n div 10) @ [digit_char (n mod 10)]"


section \<open>Symbol normalizer (tushare\_utils.py, \<open>TushareProvider._normalize_symbol\<close>)\<close>

text \<open>
  The source removes \<open>sh.\<close> and then \<open>sz.\<close> with \<open>str.replace\<close>, returns the result when
  it contains a dot, and otherwise appends the exchange suffix chosen by the first
  character. Logging is left out.
\<close>

definition normalize_symbol :: "string \<Rightarrow> string" where
  "normalize_symbol original_symbol =
     (let symbol = py_replace ''sz.'' [] (py_replace ''sh.'' [] original_symbol) in
      if CHR ''.'' \<in> set symbol then symbol
      else if startswith symbol ''6'' then symbol @ ''.SH''
      else if startswith symbol ''0'' \<or> startswith symbol ''3'' then symbol @ ''.SZ''
      else if startswith symbol ''8'' then symbol @ ''.BJ''
      else symbol @ ''.SZ'')"

text \<open>
  The suffix rule as the specification words it (section 4.1): a string that contains
  the exchange separator is canonical already; any other string gets the suffix of its
  leading character.
\<close>

definition exchange_of :: "string \<Rightarrow> string" where
  "exchange_of s =
     (case s of
        [] \<Rightarrow> ''SZ''
      | c # _ \<Rightarrow>
          if c = CHR ''6'' then ''SH''
          else if c = CHR ''0'' \<or> c = CHR ''3'' then ''SZ''
          else if c = CHR ''8'' then ''BJ''
          else ''SZ'')"

definition suffix_rule :: "string \<Rightarrow> string" where
  "suffix_rule s = (if CHR ''.'' \<in> set s then s else s @ ''.'' @ exchange_of s)"


section \<open>Calendar dates (the standard library's \<open>datetime\<close>, as \<open>get_stock_daily\<close> uses it)\<close>

text \<open>
  \<open>get_stock_daily\<close> reads the clock, subtracts \<open>timedelta(days=365)\<close> and formats with
  \<open>strftime('%Y%m%d')\<close>. The definitions follow the library's own proleptic Gregorian
  arithmetic (\<open>_ymd2ord\<close>, \<open>_ord2ymd\<close>, \<open>datetime.__add__\<close>). The time of day is not
  modelled: a whole-day \<open>timedelta\<close> leaves it unchanged and the format does not print it.
\<close>

record datetime =
  year :: int
  month :: int
  day :: int

definition DAYS_IN_MONTH :: "int list" where
  "DAYS_IN_MONTH = [-1, 31, 28, 31, 30, 31, 30, 31, 31, 30, 31, 30, 31]"

definition DAYS_BEFORE_MONTH :: "int list" where
  "DAYS_BEFORE_MONTH = [-1, 0, 31, 59, 90, 120, 151, 181, 212, 243, 273, 304, 334]"

definition MAXORDINAL :: int where
  "MAXORDINAL = 3652059"

definition is_leap :: "int \<Rightarrow> bool" where
  "is_leap y = (y mod 4 = 0 \<and> (y mod 100 \<noteq> 0 \<or> y mod 400 = 0))"

definition days_before_year :: "int \<Rightarrow> int" where
  "days_before_year yr = (let y = yr - 1 in y * 365 + y div 4 - y div 100 + y div 400)"

definition days_in_month :: "int \<Rightarrow> int \<Rightarrow> int" where
  "days_in_month y m = (if m = 2 \<and> is_leap y then 29 else DAYS_IN_MONTH ! nat m)"

definition days_before_month :: "int \<Rightarrow> int \<Rightarrow> int" where
  "days_before_month y m = DAYS_BEFORE_MONTH ! nat m + (if m > 2 \<and> is_leap y then 1 else 0)"

definition ymd2ord :: "int \<Rightarrow> int \<Rightarrow> int \<Rightarrow> int" where
  "ymd2ord y m d = days_before_year y + days_before_month y m + d"

definition DI400Y :: int where
  "DI400Y = days_before_year 401"

definition DI100Y :: int where
  "DI100Y = days_before_year 101"

definition DI4Y :: int where
  "DI4Y = days_before_year 5"

text \<open>
  The last part of \<open>_ord2ymd\<close>: from the offset \<open>nd\<close> of the day in its year, the month by
  an estimate that is exact or one too large, and the day of the month.
\<close>

definition month_day :: "bool \<Rightarrow> int \<Rightarrow> int \<times> int" where
  "month_day leapyear nd =
     (let m = (nd + 50) div 32;
          preceding = DAYS_BEFORE_MONTH ! nat m + (if m > 2 \<and> leapyear then 1 else 0)
      in if preceding > nd
         then (let m' = m - 1;
                   preceding' = preceding
                     - (DAYS_IN_MONTH ! nat m' + (if m' = 2 \<and> leapyear then 1 else 0))
               in (m', nd - preceding' + 1))
         else (m, nd - preceding + 1))"

definition ord2ymd :: "int \<Rightarrow> int \<times> int \<times> int" where
  "ord2ymd ordinal =
     (let n = ordinal - 1;
          n400 = n div DI400Y; na = n mod DI400Y;
          y0 = n400 * 400 + 1;
          n100 = na div DI100Y; nb = na mod DI100Y;
          n4 = nb div DI4Y; nc = nb mod DI4Y;
          n1 = nc div 365; nd = nc mod 365;
          y = y0 + n100 * 100 + n4 * 4 + n1
      in if n1 = 4 \<or> n100 = 4 then (y - 1, 12, 31)
         else
           (case month_day (n1 = 3 \<and> (n4 \<noteq> 24 \<or> n100 = 3)) nd of
              (m, d) \<Rightarrow> (y, m, d)))"

definition toordinal :: "datetime \<Rightarrow> int" where
  "toordinal dt = ymd2ord (year dt) (month dt) (day dt)"

definition fromordinal :: "int \<Rightarrow> datetime" where
  "fromordinal n = (case ord2ymd n of (y, m, d) \<Rightarrow> \<lparr>year = y, month = m, day = d\<rparr>)"

text \<open>\<open>dt - timedelta(days=k)\<close>: the library raises \<open>OverflowError\<close> outside years 1 to 9999.\<close>

definition datetime_sub_days :: "datetime \<Rightarrow> int \<Rightarrow> exn + datetime" where
  "datetime_sub_days dt k =
     (let days = toordinal dt - k in
      if 0 < days \<and> days \<le> MAXORDINAL then Inr (fromordinal days)
      else Inl (Exception ''OverflowError: date value out of range''))"

text \<open>
  \<open>strftime('%Y%m%d')\<close>: the year as the C library prints it (its decimal digits, four of
  them from year 1000 on), the month and the day zero-padded to two digits.
\<close>

definition strftime_Ymd :: "datetime \<Rightarrow> string" where
  "strftime_Ymd dt =
     str_nat (nat (year dt)) @ zero_padded 2 (nat (month dt)) @ zero_padded 2 (nat (day dt))"

text \<open>A date the \<open>datetime\<close> class can hold.\<close>

definition valid_date :: "datetime \<Rightarrow> bool" where
  "valid_date dt =
     (1 \<le> year dt \<and> year dt \<le> 9999 \<and> 1 \<le> month dt \<and> month dt \<le> 12
      \<and> 1 \<le> day dt \<and> day dt \<le> days_in_month (year dt) (month dt))"


text \<open>
  What the result of \<open>month_day\<close> must satisfy: a month, a day of that month, and the
  offset in the year that they stand for.
\<close>

definition month_day_ok :: "bool \<Rightarrow> int \<Rightarrow> int \<times> int \<Rightarrow> bool" where
  "month_day_ok leapyear nd md =
     (case md of (m, d) \<Rightarrow>
        1 \<le> m \<and> m \<le> 12 \<and> 1 \<le> d
        \<and> d \<le> (if m = 2 \<and> leapyear then 29 else DAYS_IN_MONTH ! nat m)
        \<and> DAYS_BEFORE_MONTH ! nat m + (if m > 2 \<and> leapyear then 1 else 0) + d = nd + 1)"

text \<open>The compact date format of the provider: eight decimal digits, no separator.\<close>

definition decimal_digits :: "char set" where
  "decimal_digits = set ''0123456789''"

definition compact_date :: "string \<Rightarrow> bool" where
  "compact_date s = (length s = 8 \<and> (\<forall>c\<in>set s. c \<in> decimal_digits))"


section \<open>Data provider adapter (tushare\_utils.py, class \<open>TushareProvider\<close>)\<close>

subsection \<open>Tables and the consumed interfaces\<close>

text \<open>
  A pandas \<open>DataFrame\<close>: column labels and rows of cells. \<open>pd.DataFrame()\<close> has neither,
  \<open>df.empty\<close> holds when either axis has length zero, and \<open>to_dict('records')\<close> gives one
  dict per row, \<open>dict(zip(columns, row))\<close>: a label that occurs twice keeps its first
  position and takes the value of its last occurrence.
\<close>

record dataframe =
  columns :: "string list"
  rows :: "pyval list list"

definition pd_DataFrame :: dataframe where
  "pd_DataFrame = \<lparr>columns = [], rows = []\<rparr>"

definition df_empty :: "dataframe \<Rightarrow> bool" where
  "df_empty df = (columns df = [] \<or> rows df = [])"

fun dict_set :: "string \<Rightarrow> pyval \<Rightarrow> pydict \<Rightarrow> pydict" where
  "dict_set k v [] = [(k, v)]"
| "dict_set k v ((k', v') # d) = (if k' = k then (k', v) # d else (k', v') # dict_set k v d)"

definition dict_of_pairs :: "(string \<times> pyval) list \<Rightarrow> pydict" where
  "dict_of_pairs pairs = foldl (\<lambda>d kv. dict_set (fst kv) (snd kv) d) [] pairs"

definition to_dict_records :: "dataframe \<Rightarrow> pydict list" where
  "to_dict_records df = map (\<lambda>r. dict_of_pairs (zip (columns df) r)) (rows df)"

text \<open>
  The remote market-data client. Each endpoint may raise; a call that returns gives a
  table or \<open>None\<close>. The \<open>fields\<close> argument is a constant of the source and is left out.
\<close>

record tushare_api =
  daily :: "string \<Rightarrow> string \<Rightarrow> string \<Rightarrow> exn + dataframe option"
  stock_basic :: "string \<Rightarrow> exn + dataframe option"
  balancesheet :: "string \<Rightarrow> string \<Rightarrow> exn + dataframe option"
  income :: "string \<Rightarrow> string \<Rightarrow> exn + dataframe option"
  cashflow :: "string \<Rightarrow> string \<Rightarrow> exn + dataframe option"

text \<open>The cache facade: \<open>save_stock_data(symbol, data, data_source)\<close> returns a key or raises.\<close>

record cache =
  save_stock_data :: "string \<Rightarrow> dataframe \<Rightarrow> string \<Rightarrow> exn + string"

text \<open>
  What \<open>get_stock_daily\<close> takes from its surroundings: the clock (\<open>datetime.now()\<close>) and the
  two pandas steps of the preprocessing, \<open>data.sort_values(col)\<close> and
  \<open>data[col] = pd.to_datetime(data[col])\<close>, either of which may raise.
\<close>

record environment =
  now :: datetime
  sort_values :: "dataframe \<Rightarrow> string \<Rightarrow> exn + dataframe"
  to_datetime :: "dataframe \<Rightarrow> string \<Rightarrow> exn + dataframe"

record TushareProvider =
  connected :: bool
  enable_cache :: bool
  api :: "tushare_api option"
  cache_manager :: "cache option"

text \<open>What an operation did to the outside: the remote request it sent, the cache entry it wrote.\<close>

datatype effect =
    DailyRequest string string string
  | CacheSave string dataframe string

subsection \<open>\<open>get_stock_daily\<close>\<close>

text \<open>
  The body of the \<open>try\<close> statement. It returns the table or the exception that leaves the
  body, together with the effects up to that point. A failure of the cache write is
  caught inside the body and changes nothing but the effects.
\<close>

definition get_stock_daily_body ::
  "environment \<Rightarrow> TushareProvider \<Rightarrow> tushare_api \<Rightarrow> string \<Rightarrow> string option \<Rightarrow> string option
    \<Rightarrow> (exn + dataframe) \<times> effect list" where
  "get_stock_daily_body env self a symbol start_date end_date =
     (let ts_code = normalize_symbol symbol;
          end_date' = (case end_date of
                         None \<Rightarrow> strftime_Ymd (now env)
                       | Some e \<Rightarrow> py_replace ''-'' [] e)
      in case (case start_date of
                 None \<Rightarrow> (case datetime_sub_days (now env) 365 of
                             Inl ex \<Rightarrow> Inl ex
                           | Inr d \<Rightarrow> Inr (strftime_Ymd d))
               | Some s \<Rightarrow> Inr (py_replace ''-'' [] s)) of
           Inl ex \<Rightarrow> (Inl ex, [])
         | Inr start_date' \<Rightarrow>
             let request = DailyRequest ts_code start_date' end_date' in
             (case daily a ts_code start_date' end_date' of
                Inl api_error \<Rightarrow> (Inl api_error, [request])
              | Inr None \<Rightarrow> (Inr pd_DataFrame, [request])
              | Inr (Some data) \<Rightarrow>
                  if df_empty data then (Inr pd_DataFrame, [request])
                  else
                    (case sort_values env data ''trade_date'' of
                       Inl ex \<Rightarrow> (Inl ex, [request])
                     | Inr sorted_data \<Rightarrow>
                         (case to_datetime env sorted_data ''trade_date'' of
                            Inl ex \<Rightarrow> (Inl ex, [request])
                          | Inr data' \<Rightarrow>
                              (case cache_manager self of
                                 None \<Rightarrow> (Inr data', [request])
                               | Some cm \<Rightarrow>
                                   if \<not> enable_cache self then (Inr data', [request])
                                   else
                                     (case save_stock_data cm symbol data' ''tushare'' of
                                        Inl cache_error \<Rightarrow>
                                          (Inr data', [request, CacheSave symbol data' ''tushare''])
                                      | Inr cache_key \<Rightarrow>
                                          (Inr data', [request, CacheSave symbol data' ''tushare''])))))))"

text \<open>The method: the connection guard, then the body under \<open>except Exception\<close>.\<close>

definition get_stock_daily ::
  "environment \<Rightarrow> TushareProvider \<Rightarrow> string \<Rightarrow> string option \<Rightarrow> string option
    \<Rightarrow> (exn + dataframe) \<times> effect list" where
  "get_stock_daily env self symbol start_date end_date =
     (case api self of
        None \<Rightarrow> (Inr pd_DataFrame, [])
      | Some a \<Rightarrow>
          if \<not> connected self then (Inr pd_DataFrame, [])
          else
            (case get_stock_daily_body env self a symbol start_date end_date of
               (Inl e, effects) \<Rightarrow> (Inr pd_DataFrame, effects)
             | (Inr data, effects) \<Rightarrow> (Inr data, effects)))"

text \<open>
  The two bounds as the body computes them before the remote call: the start, whose
  default is a subtraction that may raise, and the end.
\<close>

definition request_window ::
  "environment \<Rightarrow> string option \<Rightarrow> string option \<Rightarrow> exn + string \<times> string" where
  "request_window env start_date end_date =
     (let end_date' = (case end_date of
                         None \<Rightarrow> strftime_Ymd (now env)
                       | Some e \<Rightarrow> py_replace ''-'' [] e)
      in case start_date of
           None \<Rightarrow> (case datetime_sub_days (now env) 365 of
                       Inl ex \<Rightarrow> Inl ex
                     | Inr d \<Rightarrow> Inr (strftime_Ymd d, end_date'))
         | Some s \<Rightarrow> Inr (py_replace ''-'' [] s, end_date'))"

subsection \<open>\<open>get_stock_info\<close>\<close>

text \<open>
  The name of the placeholder record is the two-character literal of the source
  (U+80A1 U+7968, the word for a share of stock), here in UTF-8, followed by the symbol.
\<close>

definition stock_label :: string where
  "stock_label = [CHR 0xE8, CHR 0x82, CHR 0xA1, CHR 0xE7, CHR 0xA5, CHR 0xA8]"

definition placeholder_info :: "string \<Rightarrow> pydict" where
  "placeholder_info symbol =
     [(''symbol'', PyStr symbol), (''name'', PyStr (stock_label @ symbol)),
      (''source'', PyStr ''unknown'')]"

text \<open>\<open>info[key]\<close> on a row raises \<open>KeyError\<close> for a missing label; \<open>info.get(key, default)\<close> does not.\<close>

definition getitem :: "pydict \<Rightarrow> string \<Rightarrow> exn + pyval" where
  "getitem d k = (case map_of d k of None \<Rightarrow> Inl (Exception (''KeyError: '' @ k)) | Some v \<Rightarrow> Inr v)"

definition get_default :: "pydict \<Rightarrow> string \<Rightarrow> pyval \<Rightarrow> pyval" where
  "get_default d k dflt = (case map_of d k of None \<Rightarrow> dflt | Some v \<Rightarrow> v)"

definition get_stock_info_body :: "tushare_api \<Rightarrow> string \<Rightarrow> exn + pydict" where
  "get_stock_info_body a symbol =
     (let ts_code = normalize_symbol symbol in
      case stock_basic a ts_code of
        Inl ex \<Rightarrow> Inl ex
      | Inr None \<Rightarrow> Inr (placeholder_info symbol)
      | Inr (Some basic_info) \<Rightarrow>
          if df_empty basic_info then Inr (placeholder_info symbol)
          else
            (case rows basic_info of
               [] \<Rightarrow> Inl (Exception ''IndexError: single positional indexer is out-of-bounds'')
             | r # _ \<Rightarrow>
                 let info = zip (columns basic_info) r in
                 (case getitem info ''ts_code'' of
                    Inl ex \<Rightarrow> Inl ex
                  | Inr code \<Rightarrow>
                      (case getitem info ''name'' of
                         Inl ex \<Rightarrow> Inl ex
                       | Inr nm \<Rightarrow>
                           Inr [(''symbol'', PyStr symbol), (''ts_code'', code), (''name'', nm),
                                (''area'', get_default info ''area'' (PyStr [])),
                                (''industry'', get_default info ''industry'' (PyStr [])),
                                (''market'', get_default info ''market'' (PyStr [])),
                                (''list_date'', get_default info ''list_date'' (PyStr [])),
                                (''source'', PyStr ''tushare'')]))))"

definition get_stock_info :: "TushareProvider \<Rightarrow> string \<Rightarrow> exn + pydict" where
  "get_stock_info self symbol =
     (case api self of
        None \<Rightarrow> Inr (placeholder_info symbol)
      | Some a \<Rightarrow>
          if \<not> connected self then Inr (placeholder_info symbol)
          else
            (case get_stock_info_body a symbol of
               Inl e \<Rightarrow> Inr (placeholder_info symbol)
             | Inr info \<Rightarrow> Inr info))"

subsection \<open>\<open>get_financial_data\<close>\<close>

text \<open>
  Each of the three statements is fetched under its own \<open>try\<close>: the records of a table
  that is there and not empty, the empty list for \<open>None\<close>, for an empty table and for a
  call that raised.
\<close>

definition statement_records :: "exn + dataframe option \<Rightarrow> pydict list" where
  "statement_records fetched =
     (case fetched of
        Inl e \<Rightarrow> []
      | Inr None \<Rightarrow> []
      | Inr (Some df) \<Rightarrow> if df_empty df then [] else to_dict_records df)"

definition get_financial_data_body ::
  "tushare_api \<Rightarrow> string \<Rightarrow> string \<Rightarrow> exn + (string \<times> pydict list) list" where
  "get_financial_data_body a symbol period =
     (let ts_code = normalize_symbol symbol;
          balance_sheet = statement_records (balancesheet a ts_code period);
          income_statement = statement_records (income a ts_code period);
          cash_flow = statement_records (cashflow a ts_code period)
      in Inr [(''balance_sheet'', balance_sheet), (''income_statement'', income_statement),
              (''cash_flow'', cash_flow)])"

definition get_financial_data ::
  "TushareProvider \<Rightarrow> string \<Rightarrow> string \<Rightarrow> exn + (string \<times> pydict list) list" where
  "get_financial_data self symbol period =
     (case api self of
        None \<Rightarrow> Inr []
      | Some a \<Rightarrow>
          if \<not> connected self then Inr []
          else
            (case get_financial_data_body a symbol period of
               Inl e \<Rightarrow> Inr []
             | Inr financials \<Rightarrow> Inr financials))"


subsection \<open>Concrete inputs\<close>

text \<open>
  A clock at 4 November 2026 with a pandas that succeeds, a one-row table, a client whose
  every endpoint raises, a client whose balance-sheet endpoint alone raises, and a
  connected provider without cache around a client.
\<close>

definition example_env :: environment where
  "example_env =
     \<lparr>now = \<lparr>year = 2026, month = 11, day = 4\<rparr>,
      sort_values = (\<lambda>df col. Inr df),
      to_datetime = (\<lambda>df col. Inr df)\<rparr>"

definition example_table :: dataframe where
  "example_table =
     \<lparr>columns = [''ts_code'', ''end_date''],
      rows = [[PyStr ''600000.SH'', PyStr ''20231231'']]\<rparr>"

definition failing_api :: tushare_api where
  "failing_api =
     \<lparr>daily = (\<lambda>ts_code start_date end_date. Inl (Exception ''timeout'')),
      stock_basic = (\<lambda>ts_code. Inl (Exception ''timeout'')),
      balancesheet = (\<lambda>ts_code period. Inl (Exception ''timeout'')),
      income = (\<lambda>ts_code period. Inl (Exception ''timeout'')),
      cashflow = (\<lambda>ts_code period. Inl (Exception ''timeout''))\<rparr>"

definition balance_sheet_failing_api :: tushare_api where
  "balance_sheet_failing_api =
     \<lparr>daily = (\<lambda>ts_code start_date end_date. Inr (Some example_table)),
      stock_basic = (\<lambda>ts_code. Inr (Some example_table)),
      balancesheet = (\<lambda>ts_code period. Inl (Exception ''timeout'')),
      income = (\<lambda>ts_code period. Inr (Some example_table)),
      cashflow = (\<lambda>ts_code period. Inr (Some example_table))\<rparr>"

definition provider_of :: "tushare_api \<Rightarrow> TushareProvider" where
  "provider_of a = \<lparr>connected = True, enable_cache = False, api = Some a, cache_manager = None\<rparr>"

text \<open>
  A client whose every endpoint returns the one-row table, a clock at the first day of
  year 1 (a year back is out of range), a pandas whose sort raises, a pandas whose date
  conversion raises, and a connected provider whose cache write raises.
\<close>

definition serving_api :: tushare_api where
  "serving_api =
     \<lparr>daily = (\<lambda>ts_code start_date end_date. Inr (Some example_table)),
      stock_basic = (\<lambda>ts_code. Inr (Some example_table)),
      balancesheet = (\<lambda>ts_code period. Inr (Some example_table)),
      income = (\<lambda>ts_code period. Inr (Some example_table)),
      cashflow = (\<lambda>ts_code period. Inr (Some example_table))\<rparr>"

definition first_day_env :: environment where
  "first_day_env =
     \<lparr>now = \<lparr>year = 1, month = 1, day = 1\<rparr>,
      sort_values = (\<lambda>df col. Inr df),
      to_datetime = (\<lambda>df col. Inr df)\<rparr>"

definition sort_failing_env :: environment where
  "sort_failing_env =
     \<lparr>now = \<lparr>year = 2026, month = 11, day = 4\<rparr>,
      sort_values = (\<lambda>df col. Inl (Exception (''KeyError: '' @ col))),
      to_datetime = (\<lambda>df col. Inr df)\<rparr>"

definition to_datetime_failing_env :: environment where
  "to_datetime_failing_env =
     \<lparr>now = \<lparr>year = 2026, month = 11, day = 4\<rparr>,
      sort_values = (\<lambda>df col. Inr df),
      to_datetime = (\<lambda>df col. Inl (Exception ''ValueError: unknown string format''))\<rparr>"

definition failing_cache :: cache where
  "failing_cache = \<lparr>save_stock_data = (\<lambda>symbol data data_source. Inl (Exception ''OSError: disk full''))\<rparr>"

definition caching_provider_of :: "tushare_api \<Rightarrow> cache \<Rightarrow> TushareProvider" where
  "caching_provider_of a cm =
     \<lparr>connected = True, enable_cache = True, api = Some a, cache_manager = Some cm\<rparr>"

text \<open>The remote requests among the effects of an operation.\<close>

fun daily_requests :: "effect list \<Rightarrow> (string \<times> string \<times> string) list" where
  "daily_requests [] = []"
| "daily_requests (DailyRequest ts_code start_date end_date # es) =
     (ts_code, start_date, end_date) # daily_requests es"
| "daily_requests (CacheSave symbol data source # es) = daily_requests es"


section \<open>Metered chat adapter (llm\_adapters/deepseek\_adapter.py, class \<open>ChatDeepSeek\<close>)\<close>

subsection \<open>Messages, results and the consumed interfaces\<close>

text \<open>
  A message is its class and its content; \<open>Other\<close> stands for the remaining subclasses of
  \<open>BaseMessage\<close>. The content is text, so \<open>str(content)\<close> is the content itself.
\<close>

datatype message_type = Human | AI | System | Other

datatype message = Message (message_type: message_type) (content: string)

abbreviation HumanMessage :: "string \<Rightarrow> message" where
  "HumanMessage c \<equiv> Message Human c"

abbreviation AIMessage :: "string \<Rightarrow> message" where
  "AIMessage c \<equiv> Message AI c"

abbreviation SystemMessage :: "string \<Rightarrow> message" where
  "SystemMessage c \<equiv> Message System c"

text \<open>
  A \<open>ChatResult\<close>: the messages of its generations, and \<open>llm_output\<close>, which is \<open>None\<close> or a
  dict. Of that dict the adapter reads the entry \<open>token_usage\<close> only, a dict of counters;
  the model keeps the dict-valued entries.
\<close>

type_synonym token_usage = "(string \<times> int) list"

record chat_result =
  generations :: "message list"
  llm_output :: "(string \<times> token_usage) list option"

text \<open>The keyword arguments of one \<open>track_usage\<close> call.\<close>

record usage_call =
  provider :: string
  model_name :: string
  input_tokens :: int
  output_tokens :: int
  session_id :: pyval
  analysis_type :: pyval

text \<open>
  The record \<open>track_usage\<close> returns. Its cost only chooses between two log lines, which
  are not modelled.
\<close>

datatype usage_record = UsageRecord

record tracker =
  track_usage :: "usage_call \<Rightarrow> exn + usage_record option"

text \<open>
  What \<open>_generate\<close> takes from its surroundings: the dispatch of the parent class
  (\<open>super()._generate(messages, stop, run_manager, **kwargs)\<close>), the two module globals,
  \<open>hash(str(messages))\<close>, and the log manager's \<open>log_token_usage\<close>.
\<close>

record chat_env =
  super_generate :: "message list \<Rightarrow> string list option \<Rightarrow> pydict \<Rightarrow> exn + chat_result"
  TOKEN_TRACKING_ENABLED :: bool
  token_tracker :: "tracker option"
  hash_str :: "message list \<Rightarrow> int"
  log_token_usage :: "usage_call \<Rightarrow> exn + unit"

text \<open>
  What a call of \<open>_generate\<close> does: what it returns or raises, the \<open>track_usage\<close> calls it
  made, and the exceptions it wrote to the error log.
\<close>

record outcome =
  returned :: "exn + chat_result"
  tracked :: "usage_call list"
  logged_errors :: "exn list"

subsection \<open>\<open>_estimate_input_tokens\<close>, \<open>_estimate_output_tokens\<close>\<close>

definition estimate_input_tokens :: "message list \<Rightarrow> int" where
  "estimate_input_tokens messages =
     (let total_chars = sum_list (map (\<lambda>m. int (length (content m))) messages)
      in max 1 (total_chars div 2))"

definition estimate_output_tokens :: "chat_result \<Rightarrow> int" where
  "estimate_output_tokens result =
     (let total_chars = sum_list (map (\<lambda>m. int (length (content m))) (generations result))
      in max 1 (total_chars div 2))"

subsection \<open>\<open>_generate\<close>\<close>

text \<open>\<open>kwargs.pop(key, None)\<close>: the value, and the dict without the key.\<close>

definition dict_pop :: "pydict \<Rightarrow> string \<Rightarrow> pyval \<times> pydict" where
  "dict_pop d k = (get_default d k PyNone, filter (\<lambda>kv. fst kv \<noteq> k) d)"

text \<open>The keyword arguments that reach the dispatch: all but \<open>session_id\<close> and \<open>analysis_type\<close>.\<close>

definition forwarded_kwargs :: "pydict \<Rightarrow> pydict" where
  "forwarded_kwargs kwargs = snd (dict_pop (snd (dict_pop kwargs ''session_id'')) ''analysis_type'')"

text \<open>
  The counts read from the response: zero and zero unless \<open>llm_output\<close> is a non-empty
  dict whose \<open>token_usage\<close> is a non-empty dict, then its \<open>prompt_tokens\<close> and
  \<open>completion_tokens\<close>, each zero when missing.
\<close>

definition extract_token_usage :: "chat_result \<Rightarrow> int \<times> int" where
  "extract_token_usage result =
     (case llm_output result of
        None \<Rightarrow> (0, 0)
      | Some out \<Rightarrow>
          if out = [] then (0, 0)
          else
            (let token_usage = (case map_of out ''token_usage'' of None \<Rightarrow> [] | Some tu \<Rightarrow> tu)
             in if token_usage = [] then (0, 0)
                else ((case map_of token_usage ''prompt_tokens'' of None \<Rightarrow> 0 | Some n \<Rightarrow> n),
                      (case map_of token_usage ''completion_tokens'' of None \<Rightarrow> 0 | Some n \<Rightarrow> n))))"

text \<open>The counts after the estimation fallback.\<close>

definition token_counts :: "message list \<Rightarrow> chat_result \<Rightarrow> int \<times> int" where
  "token_counts messages result =
     (case extract_token_usage result of
        (in_tokens, out_tokens) \<Rightarrow>
          if in_tokens = 0 \<and> out_tokens = 0
          then (estimate_input_tokens messages, estimate_output_tokens result)
          else (in_tokens, out_tokens))"

text \<open>
  The arguments of the \<open>track_usage\<close> call: a session id and an analysis type that were
  not passed get their defaults.
\<close>

definition usage_call_of ::
  "chat_env \<Rightarrow> string \<Rightarrow> message list \<Rightarrow> pydict \<Rightarrow> int \<Rightarrow> int \<Rightarrow> usage_call" where
  "usage_call_of env self_model_name messages kwargs in_tokens out_tokens =
     (let session_id0 = fst (dict_pop kwargs ''session_id'');
          analysis_type0 = fst (dict_pop (snd (dict_pop kwargs ''session_id'')) ''analysis_type'')
      in \<lparr>provider = ''deepseek'',
          model_name = self_model_name,
          input_tokens = in_tokens,
          output_tokens = out_tokens,
          session_id =
            (if session_id0 = PyNone
             then PyStr (''deepseek_'' @ str_int (hash_str env messages mod 10000))
             else session_id0),
          analysis_type =
            (if analysis_type0 = PyNone then PyStr ''stock_analysis'' else analysis_type0)\<rparr>)"

text \<open>
  The inner \<open>try\<close>: the call of the tracker and, when it returned a record, the log
  manager's \<open>log_token_usage\<close>. Whatever is raised in it is caught and written to the error
  log; the value is the list of what was logged so.
\<close>

definition record_usage :: "chat_env \<Rightarrow> tracker \<Rightarrow> usage_call \<Rightarrow> exn list" where
  "record_usage env tr call =
     (case track_usage tr call of
        Inl track_error \<Rightarrow> [track_error]
      | Inr None \<Rightarrow> []
      | Inr (Some usage_record) \<Rightarrow>
          (case log_token_usage env call of
             Inl track_error \<Rightarrow> [track_error]
           | Inr done \<Rightarrow> []))"

text \<open>
  The method. An exception of the dispatch is logged and raised again; after a dispatch
  that returned, the result is returned whatever the recording did.
\<close>

definition generate ::
  "chat_env \<Rightarrow> string \<Rightarrow> message list \<Rightarrow> string list option \<Rightarrow> pydict \<Rightarrow> outcome" where
  "generate env self_model_name messages stop kwargs =
     (case super_generate env messages stop (forwarded_kwargs kwargs) of
        Inl e \<Rightarrow> \<lparr>returned = Inl e, tracked = [], logged_errors = [e]\<rparr>
      | Inr result \<Rightarrow>
          (case token_counts messages result of
             (in_tokens, out_tokens) \<Rightarrow>
               (case token_tracker env of
                  None \<Rightarrow> \<lparr>returned = Inr result, tracked = [], logged_errors = []\<rparr>
                | Some tr \<Rightarrow>
                    if TOKEN_TRACKING_ENABLED env \<and> (in_tokens > 0 \<or> out_tokens > 0)
                    then
                      (let call = usage_call_of env self_model_name messages kwargs
                                    in_tokens out_tokens
                       in \<lparr>returned = Inr result, tracked = [call],
                           logged_errors = record_usage env tr call\<rparr>)
                    else \<lparr>returned = Inr result, tracked = [], logged_errors = []\<rparr>)))"

text \<open>The token counts of the \<open>track_usage\<close> calls of an outcome.\<close>

definition recorded_counts :: "outcome \<Rightarrow> (int \<times> int) list" where
  "recorded_counts out = map (\<lambda>c. (input_tokens c, output_tokens c)) (tracked out)"

subsection \<open>\<open>invoke\<close>\<close>

text \<open>
  The input of \<open>invoke\<close>: a string, a list, a prompt value (given by its \<open>to_messages()\<close>),
  or an object that cannot be iterated (given by its \<open>str\<close> form). An element of a list
  is a message, a string, a pair of strings, or anything else (given by its \<open>str\<close> form).
\<close>

datatype item =
    ItemMessage message
  | ItemStr string
  | ItemTuple2 string string
  | ItemOther string

datatype lm_input =
    InputStr string
  | InputList "item list"
  | InputPromptValue "message list"
  | InputOther string

fun is_base_message :: "item \<Rightarrow> bool" where
  "is_base_message (ItemMessage m) = True"
| "is_base_message other = False"

fun convert_item :: "item \<Rightarrow> message" where
  "convert_item (ItemMessage m) = m"
| "convert_item (ItemStr s) = HumanMessage s"
| "convert_item (ItemTuple2 role c) =
     (if role = ''human'' then HumanMessage c
      else if role = ''ai'' then AIMessage c
      else if role = ''system'' then SystemMessage c
      else HumanMessage c)"
| "convert_item (ItemOther str_form) = HumanMessage str_form"

text \<open>The message list \<open>invoke\<close> builds from its input.\<close>

definition invoke_messages :: "lm_input \<Rightarrow> message list" where
  "invoke_messages input =
     (case input of
        InputStr s \<Rightarrow> [HumanMessage s]
      | InputList items \<Rightarrow>
          if list_all is_base_message items then [m. ItemMessage m \<leftarrow> items]
          else map convert_item items
      | InputPromptValue messages \<Rightarrow> messages
      | InputOther str_form \<Rightarrow> [HumanMessage str_form])"

text \<open>
  The method. Its keywords are passed on as \<open>self._generate(messages, **kwargs)\<close>, where a
  keyword \<open>stop\<close> binds the parameter of that name: \<open>stop\<close> is that keyword (\<open>None\<close> when
  the call has none) and \<open>kwargs\<close> are the other keywords.
\<close>

definition invoke ::
  "chat_env \<Rightarrow> string \<Rightarrow> lm_input \<Rightarrow> string list option \<Rightarrow> pydict
    \<Rightarrow> (exn + message) \<times> usage_call list \<times> exn list" where
  "invoke env self_model_name input stop kwargs =
     (let out = generate env self_model_name (invoke_messages input) stop kwargs in
      (case returned out of
         Inl e \<Rightarrow> Inl e
       | Inr result \<Rightarrow>
           (case generations result of
              [] \<Rightarrow> Inr (AIMessage [])
            | m # rest \<Rightarrow>
                if message_type m = AI then Inr m else Inr (AIMessage (content m))),
       tracked out, logged_errors out))"

subsection \<open>Concrete inputs of the chat adapter\<close>

text \<open>
  A reply of forty characters with or without a usage block, and surroundings in which
  the dispatch and the tracker behave as given.
\<close>

definition reply_with :: "token_usage option \<Rightarrow> chat_result" where
  "reply_with usage =
     \<lparr>generations = [AIMessage (replicate 40 (CHR ''a''))],
      llm_output = (case usage of None \<Rightarrow> None | Some tu \<Rightarrow> Some [(''token_usage'', tu)])\<rparr>"

definition chat_env_of :: "exn + chat_result \<Rightarrow> exn + usage_record option \<Rightarrow> chat_env" where
  "chat_env_of dispatch tracking =
     \<lparr>super_generate = (\<lambda>messages stop kwargs. dispatch),
      TOKEN_TRACKING_ENABLED = True,
      token_tracker = Some \<lparr>track_usage = (\<lambda>call. tracking)\<rparr>,
      hash_str = (\<lambda>messages. 4242),
      log_token_usage = (\<lambda>call. Inr ())\<rparr>"


section \<open>Helper lemmas\<close>

lemma py_replace_no_occurrence:
  "old \<noteq> [] \<Longrightarrow> \<not> sublist old s \<Longrightarrow> py_replace old new s = s"
  by (induction s) (auto simp: sublist_Cons_right)

lemma dot_free_not_sublist:
  "CHR ''.'' \<in> set old \<Longrightarrow> CHR ''.'' \<notin> set s \<Longrightarrow> \<not> sublist old s"
  using set_mono_sublist by fastforce

lemma py_replace_dot_free:
  "CHR ''.'' \<in> set old \<Longrightarrow> CHR ''.'' \<notin> set s \<Longrightarrow> py_replace old new s = s"
  by (rule py_replace_no_occurrence) (auto dest: dot_free_not_sublist)

lemma py_replace_at:
  "old \<noteq> [] \<Longrightarrow> \<not> sublist old (a @ butlast old) \<Longrightarrow>
   py_replace old new (a @ old @ b) = a @ new @ py_replace old new b"
proof (induction a)
  case Nil
  then obtain c cs where old: "old = c # cs" by (cases old) auto
  show ?case by (simp add: old)
next
  case (Cons x a)
  have len: "length old \<le> length (x # a @ butlast old)" by simp
  have "\<not> prefix old (x # a @ butlast old)"
    using Cons.prems(2) by (auto simp: sublist_Cons_right)
  moreover have "prefix (x # a @ butlast old) ((x # a @ butlast old) @ [last old] @ b)"
    by simp
  moreover have "(x # a @ butlast old) @ [last old] @ b = x # a @ old @ b"
    using Cons.prems(1) by simp
  ultimately have np: "\<not> prefix old (x # a @ old @ b)"
    using len prefix_length_prefix by metis
  have "\<not> sublist old (a @ butlast old)"
    using Cons.prems(2) by (auto simp: sublist_Cons_right)
  then show ?case using Cons.IH Cons.prems(1) np by simp
qed

lemma normalize_symbol_suffix_rule:
  "normalize_symbol s = suffix_rule (py_replace ''sz.'' [] (py_replace ''sh.'' [] s))"
  by (auto simp: normalize_symbol_def suffix_rule_def exchange_of_def startswith_def Let_def
      split: list.splits)

lemma normalize_symbol_dot_free:
  "CHR ''.'' \<notin> set s \<Longrightarrow> normalize_symbol s = s @ ''.'' @ exchange_of s"
  by (simp add: normalize_symbol_suffix_rule py_replace_dot_free suffix_rule_def)


section \<open>Properties of the symbol normalizer\<close>

lemma digits_dot_free:
  assumes "\<forall>c\<in>set s. c \<in> set ''0123456789''"
  shows "CHR ''.'' \<notin> set s"
proof
  assume "CHR ''.'' \<in> set s"
  then have "CHR ''.'' \<in> set ''0123456789''" using assms by blast
  then show False by simp
qed

text \<open>
  C5. A bare code, a non-empty string of decimal digits, gets its suffix from its first
  character: \<open>6\<close> gives \<open>.SH\<close>, \<open>0\<close> and \<open>3\<close> give \<open>.SZ\<close>, \<open>8\<close> gives \<open>.BJ\<close>, any other
  digit gives \<open>.SZ\<close>.
\<close>

theorem normalize_symbol_bare_digits:
  assumes "s \<noteq> []" and "\<forall>c\<in>set s. c \<in> set ''0123456789''"
  shows "normalize_symbol s =
           s @ (if hd s = CHR ''6'' then ''.SH''
                else if hd s = CHR ''0'' \<or> hd s = CHR ''3'' then ''.SZ''
                else if hd s = CHR ''8'' then ''.BJ''
                else ''.SZ'')"
proof -
  have "CHR ''.'' \<notin> set s" using assms(2) by (rule digits_dot_free)
  then have "normalize_symbol s = s @ ''.'' @ exchange_of s"
    by (rule normalize_symbol_dot_free)
  moreover obtain c cs where "s = c # cs" using assms(1) by (cases s) auto
  ultimately show ?thesis by (simp add: exchange_of_def)
qed

theorem normalize_symbol_bare_digits_witness:
  "normalize_symbol ''600519'' = ''600519.SH'' \<and> normalize_symbol ''000001'' = ''000001.SZ''
   \<and> normalize_symbol ''300750'' = ''300750.SZ'' \<and> normalize_symbol ''830799'' = ''830799.BJ''
   \<and> normalize_symbol ''1'' = ''1.SZ''"
proof -
  have h6: "\<forall>c\<in>set ''600519''. c \<in> set ''0123456789''" by simp
  have h0: "\<forall>c\<in>set ''000001''. c \<in> set ''0123456789''" by simp
  have h3: "\<forall>c\<in>set ''300750''. c \<in> set ''0123456789''" by simp
  have h8: "\<forall>c\<in>set ''830799''. c \<in> set ''0123456789''" by simp
  have h1: "\<forall>c\<in>set ''1''. c \<in> set ''0123456789''" by simp
  have "normalize_symbol ''600519'' = ''600519.SH''"
    using normalize_symbol_bare_digits [OF _ h6] by simp
  moreover have "normalize_symbol ''000001'' = ''000001.SZ''"
    using normalize_symbol_bare_digits [OF _ h0] by simp
  moreover have "normalize_symbol ''300750'' = ''300750.SZ''"
    using normalize_symbol_bare_digits [OF _ h3] by simp
  moreover have "normalize_symbol ''830799'' = ''830799.BJ''"
    using normalize_symbol_bare_digits [OF _ h8] by simp
  moreover have "normalize_symbol ''1'' = ''1.SZ''"
    using normalize_symbol_bare_digits [OF _ h1] by simp
  ultimately show ?thesis by blast
qed

text \<open>
  C9. The normalizer deletes \<open>sh.\<close> and \<open>sz.\<close> wherever they stand, not only in front: its
  result is the suffix rule applied to the input after both deletions; an occurrence
  after any dot-free text \<open>a\<close> is cut out and the scan goes on behind it; and
  \<open>600sz.000\<close> becomes \<open>600000.SH\<close>.
\<close>

theorem normalize_symbol_deletes_everywhere:
  "normalize_symbol s = suffix_rule (py_replace ''sz.'' [] (py_replace ''sh.'' [] s))
   \<and> (CHR ''.'' \<notin> set a \<longrightarrow>
        py_replace ''sh.'' [] (a @ ''sh.'' @ b) = a @ py_replace ''sh.'' [] b
      \<and> py_replace ''sz.'' [] (a @ ''sz.'' @ b) = a @ py_replace ''sz.'' [] b)
   \<and> normalize_symbol ''600sz.000'' = ''600000.SH''"
proof (intro conjI impI)
  show "normalize_symbol s = suffix_rule (py_replace ''sz.'' [] (py_replace ''sh.'' [] s))"
    by (rule normalize_symbol_suffix_rule)
next
  assume a: "CHR ''.'' \<notin> set a"
  then have "\<not> sublist ''sh.'' (a @ butlast ''sh.'')"
    by (intro dot_free_not_sublist) simp_all
  then show "py_replace ''sh.'' [] (a @ ''sh.'' @ b) = a @ py_replace ''sh.'' [] b"
    using py_replace_at [of "''sh.''" a "[]" b] by simp
next
  assume a: "CHR ''.'' \<notin> set a"
  then have "\<not> sublist ''sz.'' (a @ butlast ''sz.'')"
    by (intro dot_free_not_sublist) simp_all
  then show "py_replace ''sz.'' [] (a @ ''sz.'' @ b) = a @ py_replace ''sz.'' [] b"
    using py_replace_at [of "''sz.''" a "[]" b] by simp
next
  show "normalize_symbol ''600sz.000'' = ''600000.SH''"
    by (simp add: normalize_symbol_def startswith_def)
qed

theorem normalize_symbol_deletes_everywhere_witness:
  "CHR ''.'' \<notin> set ''600'' \<and> py_replace ''sz.'' [] (''600'' @ ''sz.'' @ ''000'') = ''600000''
   \<and> py_replace ''sh.'' [] (''6'' @ ''sh.'' @ ''0sh.1'') = ''601''
   \<and> normalize_symbol ''0sh.0sz.1'' = ''001.SZ''"
  using normalize_symbol_deletes_everywhere [of "''0sh.0sz.1''" "''600''" "''000''"]
    normalize_symbol_deletes_everywhere [of "''0sh.0sz.1''" "''6''" "''0sh.1''"]
  by (simp add: suffix_rule_def exchange_of_def)

text \<open>
  C4, as the code has it. The prefix deletion runs before the test for the separator, so
  a string with a dot is returned unchanged when it contains neither \<open>sh.\<close> nor \<open>sz.\<close>;
  and normalizing twice is normalizing once whenever the first result contains neither.
\<close>

theorem normalize_symbol_fixed_points:
  "(CHR ''.'' \<in> set s \<and> \<not> sublist ''sh.'' s \<and> \<not> sublist ''sz.'' s \<longrightarrow> normalize_symbol s = s)
   \<and> (\<not> sublist ''sh.'' (normalize_symbol s) \<and> \<not> sublist ''sz.'' (normalize_symbol s) \<longrightarrow>
        normalize_symbol (normalize_symbol s) = normalize_symbol s)"
proof -
  have fp: "normalize_symbol t = t"
    if "CHR ''.'' \<in> set t" "\<not> sublist ''sh.'' t" "\<not> sublist ''sz.'' t" for t
    using that by (simp add: normalize_symbol_suffix_rule py_replace_no_occurrence suffix_rule_def)
  have dot: "CHR ''.'' \<in> set (normalize_symbol s)"
    by (simp add: normalize_symbol_suffix_rule suffix_rule_def)
  show ?thesis using fp dot by blast
qed

theorem normalize_symbol_fixed_points_witness:
  "CHR ''.'' \<in> set ''600000.SH'' \<and> \<not> sublist ''sh.'' ''600000.SH'' \<and> \<not> sublist ''sz.'' ''600000.SH''
   \<and> normalize_symbol ''600000.SH'' = ''600000.SH''
   \<and> normalize_symbol (normalize_symbol ''sz.000001'') = normalize_symbol ''sz.000001''
   \<and> normalize_symbol ''sz.000001'' = ''000001.SZ''"
  using normalize_symbol_fixed_points [of "''600000.SH''"] normalize_symbol_fixed_points [of "''sz.000001''"]
  by (simp add: normalize_symbol_def startswith_def sublist_Cons_right)

text \<open>
  As the specification words it the property fails twice: \<open>sh.600000\<close> contains the separator and is
  changed, and the odd input \<open>ssz.h.600000\<close> normalizes to \<open>sh.600000\<close>, which a second
  pass changes again.
\<close>

theorem normalize_symbol_not_idempotent:
  "CHR ''.'' \<in> set ''sh.600000'' \<and> normalize_symbol ''sh.600000'' = ''600000.SH''
   \<and> normalize_symbol ''sh.600000'' \<noteq> ''sh.600000''
   \<and> normalize_symbol ''ssz.h.600000'' = ''sh.600000''
   \<and> normalize_symbol (normalize_symbol ''ssz.h.600000'') \<noteq> normalize_symbol ''ssz.h.600000''"
  by (simp add: normalize_symbol_def startswith_def)


section \<open>Properties of the data provider adapter\<close>

lemma get_stock_daily_returns:
  "\<exists>df. fst (get_stock_daily env self symbol sd ed) = Inr df"
  by (auto simp: get_stock_daily_def split: option.splits prod.splits sum.splits)

lemma get_stock_daily_fallback:
  "api self = Some a \<Longrightarrow> get_stock_daily_body env self a symbol sd ed = (Inl ex, tr) \<Longrightarrow>
   fst (get_stock_daily env self symbol sd ed) = Inr pd_DataFrame"
  by (simp add: get_stock_daily_def)

text \<open>A client whose \<open>daily\<close> endpoint raises on every call makes the body raise.\<close>

lemma get_stock_daily_remote_failure:
  assumes "api self = Some a" and "\<forall>c s e. \<exists>ex. daily a c s e = Inl ex"
  shows "fst (get_stock_daily env self symbol sd ed) = Inr pd_DataFrame"
proof -
  have "\<exists>ex tr. get_stock_daily_body env self a symbol sd ed = (Inl ex, tr)"
  proof (cases "case sd of None \<Rightarrow> (case datetime_sub_days (now env) 365 of
                             Inl ex \<Rightarrow> Inl ex
                           | Inr d \<Rightarrow> Inr (strftime_Ymd d))
               | Some s \<Rightarrow> Inr (py_replace ''-'' [] s)")
    case (Inl ex)
    then show ?thesis by (simp add: get_stock_daily_body_def)
  next
    case (Inr s')
    obtain ex where "daily a (normalize_symbol symbol) s'
        (case ed of None \<Rightarrow> strftime_Ymd (now env) | Some e \<Rightarrow> py_replace ''-'' [] e) = Inl ex"
      using assms(2) by blast
    with Inr show ?thesis by (simp add: get_stock_daily_body_def)
  qed
  then show ?thesis using assms(1) get_stock_daily_fallback by blast
qed

text \<open>
  The body, step by step: what it gives when the window cannot be computed, when the
  remote call raises, when either pandas step raises, and when all of them return,
  with a cache write that raises.
\<close>

lemma window_start:
  "request_window env sd ed = Inr (s, e) \<Longrightarrow>
   (case sd of
      None \<Rightarrow> (case datetime_sub_days (now env) 365 of
                  Inl ex \<Rightarrow> Inl ex
                | Inr d \<Rightarrow> Inr (strftime_Ymd d))
    | Some s \<Rightarrow> Inr (py_replace ''-'' [] s)) = Inr s"
  by (cases sd; cases "datetime_sub_days (now env) 365") (simp_all add: request_window_def Let_def)

lemma window_end:
  "request_window env sd ed = Inr (s, e) \<Longrightarrow>
   (case ed of None \<Rightarrow> strftime_Ymd (now env) | Some e \<Rightarrow> py_replace ''-'' [] e) = e"
  by (cases sd; cases "datetime_sub_days (now env) 365") (simp_all add: request_window_def Let_def)

lemma window_overflow:
  "request_window env sd ed = Inl ex \<Longrightarrow>
   (case sd of
      None \<Rightarrow> (case datetime_sub_days (now env) 365 of
                  Inl ex \<Rightarrow> Inl ex
                | Inr d \<Rightarrow> Inr (strftime_Ymd d))
    | Some s \<Rightarrow> Inr (py_replace ''-'' [] s)) = Inl ex"
  by (cases sd; cases "datetime_sub_days (now env) 365") (simp_all add: request_window_def Let_def)

lemma body_window_raises:
  assumes "request_window env sd ed = Inl ex"
  shows "get_stock_daily_body env self a symbol sd ed = (Inl ex, [])"
  unfolding get_stock_daily_body_def Let_def window_overflow [OF assms] by simp

lemma body_daily_raises:
  assumes w: "request_window env sd ed = Inr (s, e)"
    and "daily a (normalize_symbol symbol) s e = Inl ex"
  shows "get_stock_daily_body env self a symbol sd ed =
           (Inl ex, [DailyRequest (normalize_symbol symbol) s e])"
  unfolding get_stock_daily_body_def Let_def window_start [OF w] window_end [OF w]
  using assms(2) by simp

lemma body_sort_values_raises:
  assumes w: "request_window env sd ed = Inr (s, e)"
    and "daily a (normalize_symbol symbol) s e = Inr (Some data)" and "\<not> df_empty data"
    and "sort_values env data ''trade_date'' = Inl ex"
  shows "get_stock_daily_body env self a symbol sd ed =
           (Inl ex, [DailyRequest (normalize_symbol symbol) s e])"
  unfolding get_stock_daily_body_def Let_def window_start [OF w] window_end [OF w]
  using assms(2-) by simp

lemma body_to_datetime_raises:
  assumes w: "request_window env sd ed = Inr (s, e)"
    and "daily a (normalize_symbol symbol) s e = Inr (Some data)" and "\<not> df_empty data"
    and "sort_values env data ''trade_date'' = Inr sorted_data"
    and "to_datetime env sorted_data ''trade_date'' = Inl ex"
  shows "get_stock_daily_body env self a symbol sd ed =
           (Inl ex, [DailyRequest (normalize_symbol symbol) s e])"
  unfolding get_stock_daily_body_def Let_def window_start [OF w] window_end [OF w]
  using assms(2-) by simp

lemma body_preprocessed:
  assumes w: "request_window env sd ed = Inr (s, e)"
    and "daily a (normalize_symbol symbol) s e = Inr (Some data)" and "\<not> df_empty data"
    and "sort_values env data ''trade_date'' = Inr sorted_data"
    and "to_datetime env sorted_data ''trade_date'' = Inr data'"
  shows "fst (get_stock_daily_body env self a symbol sd ed) = Inr data'"
  unfolding get_stock_daily_body_def Let_def window_start [OF w] window_end [OF w]
  using assms(2-) by (simp split: option.split sum.split)

lemma body_cache_write_raises:
  assumes w: "request_window env sd ed = Inr (s, e)"
    and "daily a (normalize_symbol symbol) s e = Inr (Some data)" and "\<not> df_empty data"
    and "sort_values env data ''trade_date'' = Inr sorted_data"
    and "to_datetime env sorted_data ''trade_date'' = Inr data'"
    and "cache_manager self = Some cm" and "enable_cache self"
    and "save_stock_data cm symbol data' ''tushare'' = Inl ex"
  shows "get_stock_daily_body env self a symbol sd ed =
           (Inr data', [DailyRequest (normalize_symbol symbol) s e,
                        CacheSave symbol data' ''tushare''])"
  unfolding get_stock_daily_body_def Let_def window_start [OF w] window_end [OF w]
  using assms(2-) by simp

lemma get_stock_daily_of_body:
  "api self = Some a \<Longrightarrow> connected self \<Longrightarrow>
   get_stock_daily_body env self a symbol sd ed = (Inr data, tr) \<Longrightarrow>
   get_stock_daily env self symbol sd ed = (Inr data, tr)"
  by (simp add: get_stock_daily_def)

lemma get_stock_daily_preprocessed:
  assumes "api self = Some a" and "connected self"
    and "fst (get_stock_daily_body env self a symbol sd ed) = Inr data"
  shows "fst (get_stock_daily env self symbol sd ed) = Inr data"
  using assms by (cases "get_stock_daily_body env self a symbol sd ed") (simp add: get_stock_daily_def)

text \<open>\<open>get_stock_info\<close>: a row without the label \<open>ts_code\<close> or \<open>name\<close>, the remote call raising.\<close>

lemma get_stock_info_key_error:
  "api self = Some a \<Longrightarrow> stock_basic a (normalize_symbol symbol) = Inr (Some basic_info) \<Longrightarrow>
   rows basic_info = r # rest \<Longrightarrow>
   getitem (zip (columns basic_info) r) ''ts_code'' = Inl ex \<or>
   getitem (zip (columns basic_info) r) ''name'' = Inl ex \<Longrightarrow>
   get_stock_info self symbol = Inr (placeholder_info symbol)"
  by (auto simp: get_stock_info_def get_stock_info_body_def Let_def split: sum.splits)

lemma to_dict_records_nonempty: "\<not> df_empty df \<Longrightarrow> to_dict_records df \<noteq> []"
  by (simp add: to_dict_records_def df_empty_def)

lemma get_stock_info_returns: "\<exists>info. get_stock_info self symbol = Inr info"
  by (auto simp: get_stock_info_def split: option.splits sum.splits)

lemma get_stock_info_fallback:
  "api self = Some a \<Longrightarrow> get_stock_info_body a symbol = Inl ex \<Longrightarrow>
   get_stock_info self symbol = Inr (placeholder_info symbol)"
  by (simp add: get_stock_info_def)

lemma get_stock_info_remote_failure:
  "api self = Some a \<Longrightarrow> stock_basic a (normalize_symbol symbol) = Inl ex \<Longrightarrow>
   get_stock_info self symbol = Inr (placeholder_info symbol)"
  by (simp add: get_stock_info_def get_stock_info_body_def)

lemma get_stock_info_disconnected:
  "api self = None \<or> \<not> connected self \<Longrightarrow>
   get_stock_info self symbol = Inr (placeholder_info symbol)"
  by (auto simp: get_stock_info_def split: option.splits)

lemma get_financial_data_returns: "\<exists>fin. get_financial_data self symbol period = Inr fin"
  by (auto simp: get_financial_data_def split: option.splits sum.splits)

lemma get_financial_data_connected:
  "api self = Some a \<Longrightarrow> connected self \<Longrightarrow>
   get_financial_data self symbol period =
     Inr [(''balance_sheet'', statement_records (balancesheet a (normalize_symbol symbol) period)),
          (''income_statement'', statement_records (income a (normalize_symbol symbol) period)),
          (''cash_flow'', statement_records (cashflow a (normalize_symbol symbol) period))]"
  by (simp add: get_financial_data_def get_financial_data_body_def Let_def)

lemma statement_records_raised: "statement_records (Inl ex) = []"
  by (simp add: statement_records_def)

lemma statement_records_table:
  "\<not> df_empty df \<Longrightarrow> statement_records (Inr (Some df)) = to_dict_records df"
  by (simp add: statement_records_def)

text \<open>The concrete inputs evaluated.\<close>

lemma first_day_window:
  "request_window first_day_env None None =
     Inl (Exception ''OverflowError: date value out of range'')"
  by (simp add: request_window_def first_day_env_def datetime_sub_days_def toordinal_def
      ymd2ord_def days_before_year_def days_before_month_def DAYS_BEFORE_MONTH_def is_leap_def
      MAXORDINAL_def Let_def)

lemma given_window:
  "request_window env (Some ''2024-01-05'') (Some ''2024-12-31'') =
     Inr (''20240105'', ''20241231'')"
  by (simp add: request_window_def)

lemma example_table_records:
  "\<not> df_empty example_table"
  "to_dict_records example_table =
     [[(''ts_code'', PyStr ''600000.SH''), (''end_date'', PyStr ''20231231'')]]"
  by (simp_all add: df_empty_def to_dict_records_def example_table_def dict_of_pairs_def)

text \<open>
  C1, as the code has it. None of \<open>get_stock_daily\<close>, \<open>get_stock_info\<close> and
  \<open>get_financial_data\<close> lets an exception out. For \<open>get_stock_daily\<close> with a client,
  each step is tied to the result: when the guarded body raises, when every call of the
  remote endpoint raises, when the computation of the default window raises, when the
  remote call for that window raises, when the sort of the fetched table raises, and
  when the date conversion of the sorted table raises, the result is the empty table;
  when these steps all return on a connected provider, the result is the preprocessed
  table, and a cache write that raises is caught on its own: the request and the write
  are the effects, and the preprocessed table, not the empty one, is the result. For
  \<open>get_stock_info\<close>, when the body raises, when the remote endpoint raises, and when
  the first row has no label \<open>ts_code\<close> or no label \<open>name\<close>, the result is the
  placeholder record, whose name is the source's two-character label followed by the
  symbol. On a connected provider \<open>get_financial_data\<close> returns the three statement
  lists, the empty list for each statement whose fetch raised.
\<close>

theorem provider_best_effort:
  "(\<exists>df. fst (get_stock_daily env self symbol start_date end_date) = Inr df)
   \<and> (\<exists>info. get_stock_info self symbol = Inr info)
   \<and> (\<exists>fin. get_financial_data self symbol period = Inr fin)
   \<and> (api self = Some a \<longrightarrow>
        ((\<exists>ex tr. get_stock_daily_body env self a symbol start_date end_date = (Inl ex, tr)) \<longrightarrow>
           fst (get_stock_daily env self symbol start_date end_date) = Inr pd_DataFrame)
      \<and> ((\<forall>c s e. \<exists>ex. daily a c s e = Inl ex) \<longrightarrow>
           fst (get_stock_daily env self symbol start_date end_date) = Inr pd_DataFrame)
      \<and> (request_window env start_date end_date = Inl ex1 \<longrightarrow>
           fst (get_stock_daily env self symbol start_date end_date) = Inr pd_DataFrame)
      \<and> (request_window env start_date end_date = Inr (s, e) \<longrightarrow>
           (daily a (normalize_symbol symbol) s e = Inl ex2 \<longrightarrow>
              fst (get_stock_daily env self symbol start_date end_date) = Inr pd_DataFrame)
         \<and> (daily a (normalize_symbol symbol) s e = Inr (Some data) \<and> \<not> df_empty data \<longrightarrow>
              (sort_values env data ''trade_date'' = Inl ex3 \<longrightarrow>
                 fst (get_stock_daily env self symbol start_date end_date) = Inr pd_DataFrame)
            \<and> (sort_values env data ''trade_date'' = Inr sorted_data \<longrightarrow>
                 (to_datetime env sorted_data ''trade_date'' = Inl ex4 \<longrightarrow>
                    fst (get_stock_daily env self symbol start_date end_date) = Inr pd_DataFrame)
               \<and> (to_datetime env sorted_data ''trade_date'' = Inr data' \<and> connected self \<longrightarrow>
                    fst (get_stock_daily env self symbol start_date end_date) = Inr data'
                  \<and> (cache_manager self = Some cm \<and> enable_cache self
                       \<and> save_stock_data cm symbol data' ''tushare'' = Inl ex5 \<longrightarrow>
                       get_stock_daily env self symbol start_date end_date =
                         (Inr data', [DailyRequest (normalize_symbol symbol) s e,
                                      CacheSave symbol data' ''tushare'']))))))
      \<and> ((\<exists>ex. get_stock_info_body a symbol = Inl ex) \<or>
          (\<exists>ex. stock_basic a (normalize_symbol symbol) = Inl ex) \<longrightarrow>
           get_stock_info self symbol =
             Inr [(''symbol'', PyStr symbol), (''name'', PyStr (stock_label @ symbol)),
                  (''source'', PyStr ''unknown'')])
      \<and> (stock_basic a (normalize_symbol symbol) = Inr (Some basic_info)
           \<and> rows basic_info = r # rest
           \<and> (getitem (zip (columns basic_info) r) ''ts_code'' = Inl ex6
                \<or> getitem (zip (columns basic_info) r) ''name'' = Inl ex6) \<longrightarrow>
           get_stock_info self symbol =
             Inr [(''symbol'', PyStr symbol), (''name'', PyStr (stock_label @ symbol)),
                  (''source'', PyStr ''unknown'')])
      \<and> (connected self \<longrightarrow>
           (\<exists>bs inc cf. get_financial_data self symbol period =
               Inr [(''balance_sheet'', bs), (''income_statement'', inc), (''cash_flow'', cf)]
             \<and> ((\<exists>ex. balancesheet a (normalize_symbol symbol) period = Inl ex) \<longrightarrow> bs = [])
             \<and> ((\<exists>ex. income a (normalize_symbol symbol) period = Inl ex) \<longrightarrow> inc = [])
             \<and> ((\<exists>ex. cashflow a (normalize_symbol symbol) period = Inl ex) \<longrightarrow> cf = []))))"
proof (intro conjI impI; (elim conjE)?)
  show "\<exists>df. fst (get_stock_daily env self symbol start_date end_date) = Inr df"
    by (rule get_stock_daily_returns)
  show "\<exists>info. get_stock_info self symbol = Inr info"
    by (rule get_stock_info_returns)
  show "\<exists>fin. get_financial_data self symbol period = Inr fin"
    by (rule get_financial_data_returns)
next
  assume "api self = Some a"
    and "\<exists>ex tr. get_stock_daily_body env self a symbol start_date end_date = (Inl ex, tr)"
  then show "fst (get_stock_daily env self symbol start_date end_date) = Inr pd_DataFrame"
    using get_stock_daily_fallback by blast
next
  assume "api self = Some a" and "\<forall>c s e. \<exists>ex. daily a c s e = Inl ex"
  then show "fst (get_stock_daily env self symbol start_date end_date) = Inr pd_DataFrame"
    by (rule get_stock_daily_remote_failure)
next
  assume "api self = Some a" and "request_window env start_date end_date = Inl ex1"
  then show "fst (get_stock_daily env self symbol start_date end_date) = Inr pd_DataFrame"
    using get_stock_daily_fallback body_window_raises by blast
next
  assume "api self = Some a" and "request_window env start_date end_date = Inr (s, e)"
    and "daily a (normalize_symbol symbol) s e = Inl ex2"
  then show "fst (get_stock_daily env self symbol start_date end_date) = Inr pd_DataFrame"
    using get_stock_daily_fallback body_daily_raises by blast
next
  assume "api self = Some a" and "request_window env start_date end_date = Inr (s, e)"
    and "daily a (normalize_symbol symbol) s e = Inr (Some data)" and "\<not> df_empty data"
    and "sort_values env data ''trade_date'' = Inl ex3"
  then show "fst (get_stock_daily env self symbol start_date end_date) = Inr pd_DataFrame"
    using get_stock_daily_fallback body_sort_values_raises by blast
next
  assume "api self = Some a" and "request_window env start_date end_date = Inr (s, e)"
    and "daily a (normalize_symbol symbol) s e = Inr (Some data)" and "\<not> df_empty data"
    and "sort_values env data ''trade_date'' = Inr sorted_data"
    and "to_datetime env sorted_data ''trade_date'' = Inl ex4"
  then show "fst (get_stock_daily env self symbol start_date end_date) = Inr pd_DataFrame"
    using get_stock_daily_fallback body_to_datetime_raises by blast
next
  assume "api self = Some a" and "request_window env start_date end_date = Inr (s, e)"
    and "daily a (normalize_symbol symbol) s e = Inr (Some data)" and "\<not> df_empty data"
    and "sort_values env data ''trade_date'' = Inr sorted_data"
    and "to_datetime env sorted_data ''trade_date'' = Inr data'" and "connected self"
  then show "fst (get_stock_daily env self symbol start_date end_date) = Inr data'"
    by (intro get_stock_daily_preprocessed body_preprocessed)
next
  assume a: "api self = Some a" and w: "request_window env start_date end_date = Inr (s, e)"
    and d: "daily a (normalize_symbol symbol) s e = Inr (Some data)" and n: "\<not> df_empty data"
    and sv: "sort_values env data ''trade_date'' = Inr sorted_data"
    and td: "to_datetime env sorted_data ''trade_date'' = Inr data'" and c: "connected self"
    and cm: "cache_manager self = Some cm" and ec: "enable_cache self"
    and sd: "save_stock_data cm symbol data' ''tushare'' = Inl ex5"
  show "get_stock_daily env self symbol start_date end_date =
               (Inr data', [DailyRequest (normalize_symbol symbol) s e,
                            CacheSave symbol data' ''tushare''])"
    by (rule get_stock_daily_of_body [OF a c body_cache_write_raises [OF w d n sv td cm ec sd]])
next
  assume "api self = Some a"
    and "(\<exists>ex. get_stock_info_body a symbol = Inl ex) \<or>
         (\<exists>ex. stock_basic a (normalize_symbol symbol) = Inl ex)"
  then have "get_stock_info self symbol = Inr (placeholder_info symbol)"
    using get_stock_info_fallback get_stock_info_remote_failure by blast
  then show "get_stock_info self symbol =
             Inr [(''symbol'', PyStr symbol), (''name'', PyStr (stock_label @ symbol)),
                  (''source'', PyStr ''unknown'')]"
    by (simp add: placeholder_info_def)
next
  assume "api self = Some a"
    and "stock_basic a (normalize_symbol symbol) = Inr (Some basic_info)"
    and "rows basic_info = r # rest"
    and "getitem (zip (columns basic_info) r) ''ts_code'' = Inl ex6
           \<or> getitem (zip (columns basic_info) r) ''name'' = Inl ex6"
  then have "get_stock_info self symbol = Inr (placeholder_info symbol)"
    by (rule get_stock_info_key_error)
  then show "get_stock_info self symbol =
             Inr [(''symbol'', PyStr symbol), (''name'', PyStr (stock_label @ symbol)),
                  (''source'', PyStr ''unknown'')]"
    by (simp add: placeholder_info_def)
next
  assume a: "api self = Some a" and c: "connected self"
  show "\<exists>bs inc cf. get_financial_data self symbol period =
               Inr [(''balance_sheet'', bs), (''income_statement'', inc), (''cash_flow'', cf)]
             \<and> ((\<exists>ex. balancesheet a (normalize_symbol symbol) period = Inl ex) \<longrightarrow> bs = [])
             \<and> ((\<exists>ex. income a (normalize_symbol symbol) period = Inl ex) \<longrightarrow> inc = [])
             \<and> ((\<exists>ex. cashflow a (normalize_symbol symbol) period = Inl ex) \<longrightarrow> cf = [])"
    unfolding get_financial_data_connected [OF a c]
    by (auto simp: statement_records_raised)
qed

text \<open>
  C7. On a connected provider the three statements are fetched independently, whatever
  each fetch does: the result holds under \<open>balance_sheet\<close>, \<open>income_statement\<close> and
  \<open>cash_flow\<close> the list of the balance-sheet fetch, of the income fetch and of the
  cash-flow fetch, each list a function of its own fetch alone: the empty list for a
  fetch that raised, for \<open>None\<close> and for an empty table, and the records of a table that
  is not empty, which are not the empty list. In particular, when the balance-sheet
  fetch raises and the other two return tables that are not empty, the result holds the
  empty balance-sheet list beside the records of the income statement and of the cash
  flow, neither of them empty.
\<close>

theorem get_financial_data_independent:
  assumes "connected self" and "api self = Some a"
  shows "get_financial_data self symbol period =
           Inr [(''balance_sheet'', statement_records (balancesheet a (normalize_symbol symbol) period)),
                (''income_statement'', statement_records (income a (normalize_symbol symbol) period)),
                (''cash_flow'', statement_records (cashflow a (normalize_symbol symbol) period))]
         \<and> statement_records (Inl ex) = []
         \<and> statement_records (Inr None) = []
         \<and> (df_empty df \<longrightarrow> statement_records (Inr (Some df)) = [])
         \<and> (\<not> df_empty df \<longrightarrow>
              statement_records (Inr (Some df)) = to_dict_records df \<and> to_dict_records df \<noteq> [])
         \<and> (balancesheet a (normalize_symbol symbol) period = Inl ex
              \<and> income a (normalize_symbol symbol) period = Inr (Some inc) \<and> \<not> df_empty inc
              \<and> cashflow a (normalize_symbol symbol) period = Inr (Some cf) \<and> \<not> df_empty cf \<longrightarrow>
              get_financial_data self symbol period =
                Inr [(''balance_sheet'', []), (''income_statement'', to_dict_records inc),
                     (''cash_flow'', to_dict_records cf)]
              \<and> to_dict_records inc \<noteq> [] \<and> to_dict_records cf \<noteq> [])"
  using get_financial_data_connected [OF assms(2) assms(1), of symbol period]
  by (simp add: statement_records_def to_dict_records_nonempty)


lemma example_symbol: "normalize_symbol ''600000'' = ''600000.SH''"
  by (simp add: normalize_symbol_def startswith_def)

theorem provider_best_effort_witness:
  "fst (get_stock_daily first_day_env (provider_of serving_api) ''600000'' None None)
     = Inr pd_DataFrame
   \<and> fst (get_stock_daily example_env (provider_of failing_api) ''600000''
        (Some ''2024-01-05'') (Some ''2024-12-31'')) = Inr pd_DataFrame
   \<and> fst (get_stock_daily sort_failing_env (provider_of serving_api) ''600000''
        (Some ''2024-01-05'') (Some ''2024-12-31'')) = Inr pd_DataFrame
   \<and> fst (get_stock_daily to_datetime_failing_env (provider_of serving_api) ''600000''
        (Some ''2024-01-05'') (Some ''2024-12-31'')) = Inr pd_DataFrame
   \<and> get_stock_daily example_env (caching_provider_of serving_api failing_cache) ''600000''
        (Some ''2024-01-05'') (Some ''2024-12-31'')
     = (Inr example_table,
        [DailyRequest ''600000.SH'' ''20240105'' ''20241231'',
         CacheSave ''600000'' example_table ''tushare''])
   \<and> get_stock_info (provider_of failing_api) ''600000'' =
       Inr [(''symbol'', PyStr ''600000''), (''name'', PyStr (stock_label @ ''600000'')),
            (''source'', PyStr ''unknown'')]
   \<and> get_stock_info (provider_of serving_api) ''600000'' =
       Inr [(''symbol'', PyStr ''600000''), (''name'', PyStr (stock_label @ ''600000'')),
            (''source'', PyStr ''unknown'')]
   \<and> get_financial_data (provider_of failing_api) ''600000'' ''20231231'' =
       Inr [(''balance_sheet'', []), (''income_statement'', []), (''cash_flow'', [])]"
proof -
  have fa: "api (provider_of failing_api) = Some failing_api"
    and fc: "connected (provider_of failing_api)"
    and sa: "api (provider_of serving_api) = Some serving_api"
    and sc: "connected (provider_of serving_api)"
    by (simp_all add: provider_of_def)
  have ca: "api (caching_provider_of serving_api failing_cache) = Some serving_api"
    and cc: "connected (caching_provider_of serving_api failing_cache)"
    and cm: "cache_manager (caching_provider_of serving_api failing_cache) = Some failing_cache"
    and ce: "enable_cache (caching_provider_of serving_api failing_cache)"
    by (simp_all add: caching_provider_of_def)
  have fd: "daily failing_api (normalize_symbol ''600000'') ''20240105'' ''20241231''
              = Inl (Exception ''timeout'')"
    and fi: "\<exists>ex. stock_basic failing_api (normalize_symbol ''600000'') = Inl ex"
    and fb: "\<exists>ex. balancesheet failing_api (normalize_symbol ''600000'') ''20231231'' = Inl ex"
    and fn: "\<exists>ex. income failing_api (normalize_symbol ''600000'') ''20231231'' = Inl ex"
    and ff: "\<exists>ex. cashflow failing_api (normalize_symbol ''600000'') ''20231231'' = Inl ex"
    by (simp_all add: failing_api_def)
  have sd: "daily serving_api (normalize_symbol ''600000'') ''20240105'' ''20241231''
              = Inr (Some example_table)"
    and si: "stock_basic serving_api (normalize_symbol ''600000'') = Inr (Some example_table)"
    by (simp_all add: serving_api_def)
  have ne: "\<not> df_empty example_table"
    by (rule example_table_records)
  have row: "rows example_table = [PyStr ''600000.SH'', PyStr ''20231231''] # []"
    and key: "getitem (zip (columns example_table) [PyStr ''600000.SH'', PyStr ''20231231''])
                ''ts_code'' = Inl (Exception ''KeyError: name'')
              \<or> getitem (zip (columns example_table) [PyStr ''600000.SH'', PyStr ''20231231''])
                ''name'' = Inl (Exception ''KeyError: name'')"
    by (simp_all add: example_table_def getitem_def)
  have sort_fails: "sort_values sort_failing_env example_table ''trade_date''
                      = Inl (Exception ''KeyError: trade_date'')"
    and sort_ok: "sort_values to_datetime_failing_env example_table ''trade_date''
                      = Inr example_table"
    and conv_fails: "to_datetime to_datetime_failing_env example_table ''trade_date''
                      = Inl (Exception ''ValueError: unknown string format'')"
    and sort_ok': "sort_values example_env example_table ''trade_date'' = Inr example_table"
    and conv_ok: "to_datetime example_env example_table ''trade_date'' = Inr example_table"
    and write_fails: "save_stock_data failing_cache ''600000'' example_table ''tushare''
                      = Inl (Exception ''OSError: disk full'')"
    by (simp_all add: sort_failing_env_def to_datetime_failing_env_def example_env_def
        failing_cache_def)
  have 1: "fst (get_stock_daily first_day_env (provider_of serving_api) ''600000'' None None)
             = Inr pd_DataFrame"
    using provider_best_effort [where env = first_day_env and self = "provider_of serving_api"
        and a = serving_api and symbol = "''600000''" and start_date = None and end_date = None
        and ?ex1.0 = "Exception ''OverflowError: date value out of range''"]
      sa first_day_window by blast
  have 2: "fst (get_stock_daily example_env (provider_of failing_api) ''600000''
             (Some ''2024-01-05'') (Some ''2024-12-31'')) = Inr pd_DataFrame"
    using provider_best_effort [where env = example_env and self = "provider_of failing_api"
        and a = failing_api and symbol = "''600000''" and start_date = "Some ''2024-01-05''"
        and end_date = "Some ''2024-12-31''" and s = "''20240105''" and e = "''20241231''"
        and ?ex2.0 = "Exception ''timeout''"]
      fa fd given_window [of example_env] by blast
  have 3: "fst (get_stock_daily sort_failing_env (provider_of serving_api) ''600000''
             (Some ''2024-01-05'') (Some ''2024-12-31'')) = Inr pd_DataFrame"
    using provider_best_effort [where env = sort_failing_env and self = "provider_of serving_api"
        and a = serving_api and symbol = "''600000''" and start_date = "Some ''2024-01-05''"
        and end_date = "Some ''2024-12-31''" and s = "''20240105''" and e = "''20241231''"
        and data = example_table and ?ex3.0 = "Exception ''KeyError: trade_date''"]
      sa sd ne sort_fails given_window [of sort_failing_env] by blast
  have 4: "fst (get_stock_daily to_datetime_failing_env (provider_of serving_api) ''600000''
             (Some ''2024-01-05'') (Some ''2024-12-31'')) = Inr pd_DataFrame"
    using provider_best_effort [where env = to_datetime_failing_env
        and self = "provider_of serving_api"
        and a = serving_api and symbol = "''600000''" and start_date = "Some ''2024-01-05''"
        and end_date = "Some ''2024-12-31''" and s = "''20240105''" and e = "''20241231''"
        and data = example_table and sorted_data = example_table
        and ?ex4.0 = "Exception ''ValueError: unknown string format''"]
      sa sd ne sort_ok conv_fails given_window [of to_datetime_failing_env] by blast
  have 5: "get_stock_daily example_env (caching_provider_of serving_api failing_cache) ''600000''
             (Some ''2024-01-05'') (Some ''2024-12-31'')
           = (Inr example_table,
              [DailyRequest (normalize_symbol ''600000'') ''20240105'' ''20241231'',
               CacheSave ''600000'' example_table ''tushare''])"
    using provider_best_effort [where env = example_env
        and self = "caching_provider_of serving_api failing_cache"
        and a = serving_api and symbol = "''600000''" and start_date = "Some ''2024-01-05''"
        and end_date = "Some ''2024-12-31''" and s = "''20240105''" and e = "''20241231''"
        and data = example_table and sorted_data = example_table and data' = example_table
        and cm = failing_cache and ?ex5.0 = "Exception ''OSError: disk full''"]
      ca cc cm ce sd ne sort_ok' conv_ok write_fails given_window [of example_env] by blast
  have 6: "get_stock_info (provider_of failing_api) ''600000'' =
             Inr [(''symbol'', PyStr ''600000''), (''name'', PyStr (stock_label @ ''600000'')),
                  (''source'', PyStr ''unknown'')]
           \<and> get_financial_data (provider_of failing_api) ''600000'' ''20231231'' =
             Inr [(''balance_sheet'', []), (''income_statement'', []), (''cash_flow'', [])]"
    using provider_best_effort [where self = "provider_of failing_api" and a = failing_api
        and symbol = "''600000''" and period = "''20231231''"]
      fa fc fi fb fn ff by auto
  have 7: "get_stock_info (provider_of serving_api) ''600000'' =
             Inr [(''symbol'', PyStr ''600000''), (''name'', PyStr (stock_label @ ''600000'')),
                  (''source'', PyStr ''unknown'')]"
    using provider_best_effort [where self = "provider_of serving_api" and a = serving_api
        and symbol = "''600000''" and basic_info = example_table
        and r = "[PyStr ''600000.SH'', PyStr ''20231231'']" and rest = "[]"
        and ?ex6.0 = "Exception ''KeyError: name''"]
      sa si row key by blast
  show ?thesis
    using 1 2 3 4 5 6 7 by (simp add: example_symbol)
qed

text \<open>
  The placeholder is not the record with the name \<open>Unknown600000\<close> that the
  specification writes: with every endpoint raising, the name for \<open>600000\<close> is the label of the source
  followed by \<open>600000\<close>. And not every step that raises gives the empty table: with a
  cache write that raises, \<open>get_stock_daily\<close> returns the one-row table it fetched.
\<close>

theorem get_stock_info_placeholder_name:
  "get_stock_info (provider_of failing_api) ''600000'' =
     Inr [(''symbol'', PyStr ''600000''), (''name'', PyStr (stock_label @ ''600000'')),
          (''source'', PyStr ''unknown'')]
   \<and> get_stock_info (provider_of failing_api) ''600000'' \<noteq>
     Inr [(''symbol'', PyStr ''600000''), (''name'', PyStr ''Unknown600000''),
          (''source'', PyStr ''unknown'')]
   \<and> fst (get_stock_daily example_env (caching_provider_of serving_api failing_cache) ''600000''
        (Some ''2024-01-05'') (Some ''2024-12-31'')) = Inr example_table
   \<and> Inr example_table \<noteq> (Inr pd_DataFrame :: exn + dataframe)"
proof (intro conjI)
  show "get_stock_info (provider_of failing_api) ''600000'' =
     Inr [(''symbol'', PyStr ''600000''), (''name'', PyStr (stock_label @ ''600000'')),
          (''source'', PyStr ''unknown'')]"
    by (simp add: get_stock_info_def get_stock_info_body_def provider_of_def failing_api_def
      placeholder_info_def)
  show "get_stock_info (provider_of failing_api) ''600000'' \<noteq>
     Inr [(''symbol'', PyStr ''600000''), (''name'', PyStr ''Unknown600000''),
          (''source'', PyStr ''unknown'')]"
    by (simp add: get_stock_info_def get_stock_info_body_def provider_of_def failing_api_def
      placeholder_info_def stock_label_def)
  have w: "request_window example_env (Some ''2024-01-05'') (Some ''2024-12-31'')
             = Inr (''20240105'', ''20241231'')"
    by (rule given_window)
  have "get_stock_daily_body example_env (caching_provider_of serving_api failing_cache)
          serving_api ''600000'' (Some ''2024-01-05'') (Some ''2024-12-31'')
        = (Inr example_table,
           [DailyRequest (normalize_symbol ''600000'') ''20240105'' ''20241231'',
            CacheSave ''600000'' example_table ''tushare''])"
    by (rule body_cache_write_raises [OF w, where data = example_table
          and sorted_data = example_table and cm = failing_cache
          and ex = "Exception ''OSError: disk full''"])
       (simp_all add: serving_api_def example_table_records example_env_def
          caching_provider_of_def failing_cache_def)
  then show "fst (get_stock_daily example_env (caching_provider_of serving_api failing_cache)
        ''600000'' (Some ''2024-01-05'') (Some ''2024-12-31'')) = Inr example_table"
    by (simp add: get_stock_daily_def caching_provider_of_def)
  show "Inr example_table \<noteq> (Inr pd_DataFrame :: exn + dataframe)"
    by (simp add: example_table_def pd_DataFrame_def)
qed

theorem get_financial_data_independent_witness:
  "get_financial_data (provider_of balance_sheet_failing_api) ''600000'' ''20231231'' =
     Inr [(''balance_sheet'', []),
          (''income_statement'', [[(''ts_code'', PyStr ''600000.SH''), (''end_date'', PyStr ''20231231'')]]),
          (''cash_flow'', [[(''ts_code'', PyStr ''600000.SH''), (''end_date'', PyStr ''20231231'')]])]
   \<and> get_financial_data (provider_of failing_api) ''600000'' ''20231231'' =
     Inr [(''balance_sheet'', []), (''income_statement'', []), (''cash_flow'', [])]
   \<and> get_financial_data (provider_of serving_api) ''600000'' ''20231231'' =
     Inr [(''balance_sheet'', [[(''ts_code'', PyStr ''600000.SH''), (''end_date'', PyStr ''20231231'')]]),
          (''income_statement'', [[(''ts_code'', PyStr ''600000.SH''), (''end_date'', PyStr ''20231231'')]]),
          (''cash_flow'', [[(''ts_code'', PyStr ''600000.SH''), (''end_date'', PyStr ''20231231'')]])]"
proof -
  have c: "connected (provider_of a)" and a: "api (provider_of a) = Some a" for a
    by (simp_all add: provider_of_def)
  have b: "balancesheet balance_sheet_failing_api (normalize_symbol ''600000'') ''20231231''
            = Inl (Exception ''timeout'')"
    and i: "income balance_sheet_failing_api (normalize_symbol ''600000'') ''20231231''
            = Inr (Some example_table)"
    and f: "cashflow balance_sheet_failing_api (normalize_symbol ''600000'') ''20231231''
            = Inr (Some example_table)"
    by (simp_all add: balance_sheet_failing_api_def)
  have fb: "balancesheet failing_api (normalize_symbol ''600000'') ''20231231''
            = Inl (Exception ''timeout'')"
    and fi: "income failing_api (normalize_symbol ''600000'') ''20231231''
            = Inl (Exception ''timeout'')"
    and ff: "cashflow failing_api (normalize_symbol ''600000'') ''20231231''
            = Inl (Exception ''timeout'')"
    by (simp_all add: failing_api_def)
  have sb: "balancesheet serving_api (normalize_symbol ''600000'') ''20231231''
            = Inr (Some example_table)"
    and si: "income serving_api (normalize_symbol ''600000'') ''20231231''
            = Inr (Some example_table)"
    and sf: "cashflow serving_api (normalize_symbol ''600000'') ''20231231''
            = Inr (Some example_table)"
    by (simp_all add: serving_api_def)
  note ne = example_table_records(1) and recs = example_table_records(2)
  have 1: "get_financial_data (provider_of balance_sheet_failing_api) ''600000'' ''20231231'' =
             Inr [(''balance_sheet'', []), (''income_statement'', to_dict_records example_table),
                  (''cash_flow'', to_dict_records example_table)]"
    using get_financial_data_independent [OF c a, where a = balance_sheet_failing_api
        and symbol = "''600000''" and period = "''20231231''" and ex = "Exception ''timeout''"
        and inc = example_table and cf = example_table] b i f ne
    by blast
  have 2: "get_financial_data (provider_of failing_api) ''600000'' ''20231231'' =
             Inr [(''balance_sheet'', statement_records (Inl (Exception ''timeout''))),
                  (''income_statement'', statement_records (Inl (Exception ''timeout''))),
                  (''cash_flow'', statement_records (Inl (Exception ''timeout'')))]
           \<and> statement_records (Inl (Exception ''timeout'')) = []"
    using get_financial_data_independent [OF c a, where a = failing_api
        and symbol = "''600000''" and period = "''20231231''" and ex = "Exception ''timeout''"]
    unfolding fb fi ff by blast
  have 3: "get_financial_data (provider_of serving_api) ''600000'' ''20231231'' =
             Inr [(''balance_sheet'', statement_records (Inr (Some example_table))),
                  (''income_statement'', statement_records (Inr (Some example_table))),
                  (''cash_flow'', statement_records (Inr (Some example_table)))]
           \<and> statement_records (Inr (Some example_table)) = to_dict_records example_table"
    using get_financial_data_independent [OF c a, where a = serving_api
        and symbol = "''600000''" and period = "''20231231''" and df = example_table] ne
    unfolding sb si sf by blast
  show ?thesis
    using 1 2 3 by (simp add: recs)
qed


section \<open>Properties of the metered chat adapter\<close>

lemma generate_dispatch_raises:
  "super_generate env messages stop (forwarded_kwargs kwargs) = Inl e \<Longrightarrow>
   generate env self_model_name messages stop kwargs
     = \<lparr>returned = Inl e, tracked = [], logged_errors = [e]\<rparr>"
  by (simp add: generate_def)

lemma generate_returns_result:
  "super_generate env messages stop (forwarded_kwargs kwargs) = Inr result \<Longrightarrow>
   returned (generate env self_model_name messages stop kwargs) = Inr result"
  by (simp add: generate_def Let_def split: prod.split option.split)

lemma generate_tracked:
  assumes "super_generate env messages stop (forwarded_kwargs kwargs) = Inr result"
    and "TOKEN_TRACKING_ENABLED env" and "token_tracker env = Some tr"
    and "token_counts messages result = (i, c)"
  shows "tracked (generate env self_model_name messages stop kwargs)
           = (if 0 < i \<or> 0 < c then [usage_call_of env self_model_name messages kwargs i c] else [])"
  using assms by (simp add: generate_def Let_def)

lemma generate_logged:
  assumes "super_generate env messages stop (forwarded_kwargs kwargs) = Inr result"
    and "token_tracker env = Some tr"
  shows "logged_errors (generate env self_model_name messages stop kwargs)
           = concat (map (record_usage env tr) (tracked (generate env self_model_name messages stop kwargs)))"
  using assms by (simp add: generate_def Let_def split: prod.split)

lemma usage_call_counts:
  "input_tokens (usage_call_of env self_model_name messages kwargs i c) = i"
  "output_tokens (usage_call_of env self_model_name messages kwargs i c) = c"
  by (simp_all add: usage_call_of_def Let_def)

lemma generate_recorded_counts:
  assumes "super_generate env messages stop (forwarded_kwargs kwargs) = Inr result"
    and "TOKEN_TRACKING_ENABLED env" and "token_tracker env = Some tr"
    and "token_counts messages result = (i, c)"
  shows "recorded_counts (generate env self_model_name messages stop kwargs)
           = (if 0 < i \<or> 0 < c then [(i, c)] else [])"
  unfolding recorded_counts_def generate_tracked [OF assms]
  by (simp add: usage_call_counts)

lemma estimates_positive:
  "1 \<le> estimate_input_tokens messages" "1 \<le> estimate_output_tokens result"
  by (simp_all add: estimate_input_tokens_def estimate_output_tokens_def)

lemma extract_usage_block:
  assumes "llm_output result = Some out" and "map_of out ''token_usage'' = Some tu"
    and "map_of tu ''prompt_tokens'' = Some p" and "map_of tu ''completion_tokens'' = Some c"
  shows "extract_token_usage result = (p, c)"
proof -
  have "out \<noteq> []" using assms(2) by auto
  moreover have "tu \<noteq> []" using assms(3) by auto
  ultimately show ?thesis using assms by (simp add: extract_token_usage_def)
qed

lemma extract_no_usage_block:
  assumes "llm_output result = None \<or> (\<exists>out. llm_output result = Some out \<and> map_of out ''token_usage'' = None)"
  shows "extract_token_usage result = (0, 0)"
  using assms by (auto simp: extract_token_usage_def)

lemma token_counts_of_block:
  assumes "extract_token_usage result = (p, c)" and "p \<noteq> 0 \<or> c \<noteq> 0"
  shows "token_counts messages result = (p, c)"
  using assms by (auto simp: token_counts_def)

lemma token_counts_estimated:
  assumes "extract_token_usage result = (0, 0)"
  shows "token_counts messages result = (estimate_input_tokens messages, estimate_output_tokens result)"
  using assms by (simp add: token_counts_def)

text \<open>
  C2. An exception of the dispatch leaves \<open>_generate\<close> as it is (after being logged, and
  with no usage recorded). After a dispatch that returned, the result is returned; and
  when the recording step raises, in the tracker or in the log manager behind it, the
  exception is caught and logged, once for each recording that was attempted, and the
  result is returned all the same.
\<close>

theorem generate_error_handling:
  "(super_generate env messages stop (forwarded_kwargs kwargs) = Inl e \<longrightarrow>
      returned (generate env self_model_name messages stop kwargs) = Inl e
      \<and> tracked (generate env self_model_name messages stop kwargs) = []
      \<and> logged_errors (generate env self_model_name messages stop kwargs) = [e])
   \<and> (super_generate env messages stop (forwarded_kwargs kwargs) = Inr result \<longrightarrow>
      returned (generate env self_model_name messages stop kwargs) = Inr result)
   \<and> (super_generate env messages stop (forwarded_kwargs kwargs) = Inr result
      \<and> token_tracker env = Some tr
      \<and> ((\<forall>call. track_usage tr call = Inl ex)
         \<or> (\<forall>call. \<exists>r. track_usage tr call = Inr (Some r)) \<and> (\<forall>call. log_token_usage env call = Inl ex)) \<longrightarrow>
      returned (generate env self_model_name messages stop kwargs) = Inr result
      \<and> logged_errors (generate env self_model_name messages stop kwargs)
          = map (\<lambda>call. ex) (tracked (generate env self_model_name messages stop kwargs)))"
proof (intro conjI impI)
  assume "super_generate env messages stop (forwarded_kwargs kwargs) = Inl e"
  then have "generate env self_model_name messages stop kwargs
     = \<lparr>returned = Inl e, tracked = [], logged_errors = [e]\<rparr>"
    by (rule generate_dispatch_raises)
  then show "returned (generate env self_model_name messages stop kwargs) = Inl e"
    and "tracked (generate env self_model_name messages stop kwargs) = []"
    and "logged_errors (generate env self_model_name messages stop kwargs) = [e]"
    by simp_all
next
  assume "super_generate env messages stop (forwarded_kwargs kwargs) = Inr result"
  then show "returned (generate env self_model_name messages stop kwargs) = Inr result"
    by (rule generate_returns_result)
next
  assume h: "super_generate env messages stop (forwarded_kwargs kwargs) = Inr result
      \<and> token_tracker env = Some tr
      \<and> ((\<forall>call. track_usage tr call = Inl ex)
         \<or> (\<forall>call. \<exists>r. track_usage tr call = Inr (Some r)) \<and> (\<forall>call. log_token_usage env call = Inl ex))"
  then show "returned (generate env self_model_name messages stop kwargs) = Inr result"
    by (simp add: generate_returns_result)
  have "record_usage env tr call = [ex]" for call
  proof -
    from h consider "track_usage tr call = Inl ex"
      | r where "track_usage tr call = Inr (Some r)" "log_token_usage env call = Inl ex"
      by blast
    then show ?thesis by cases (simp_all add: record_usage_def)
  qed
  then have "concat (map (record_usage env tr) calls) = map (\<lambda>call. ex) calls" for calls
    by (induction calls) simp_all
  then show "logged_errors (generate env self_model_name messages stop kwargs)
          = map (\<lambda>call. ex) (tracked (generate env self_model_name messages stop kwargs))"
    using h generate_logged by metis
qed

theorem generate_error_handling_witness:
  "generate (chat_env_of (Inl (Exception ''connection reset'')) (Inr None))
      ''deepseek-chat'' [HumanMessage ''hello world!''] None []
     = \<lparr>returned = Inl (Exception ''connection reset''), tracked = [],
        logged_errors = [Exception ''connection reset'']\<rparr>
   \<and> returned (generate (chat_env_of (Inr (reply_with None)) (Inl (Exception ''ledger is down'')))
      ''deepseek-chat'' [HumanMessage ''hello world!''] None [])
     = Inr (reply_with None)
   \<and> logged_errors (generate (chat_env_of (Inr (reply_with None)) (Inl (Exception ''ledger is down'')))
      ''deepseek-chat'' [HumanMessage ''hello world!''] None [])
     = [Exception ''ledger is down'']"
proof -
  let ?down = "chat_env_of (Inr (reply_with None)) (Inl (Exception ''ledger is down''))"
  let ?reset = "chat_env_of (Inl (Exception ''connection reset'')) (Inr None)"
  let ?tr = "\<lparr>track_usage = (\<lambda>call. Inl (Exception ''ledger is down'') :: exn + usage_record option)\<rparr>"
  have r: "super_generate ?reset [HumanMessage ''hello world!''] None (forwarded_kwargs [])
           = Inl (Exception ''connection reset'')"
    by (simp add: chat_env_of_def)
  have d1: "super_generate ?down [HumanMessage ''hello world!''] None (forwarded_kwargs [])
           = Inr (reply_with None)"
    and d2: "token_tracker ?down = Some ?tr"
    and d3: "TOKEN_TRACKING_ENABLED ?down"
    and d4: "\<forall>call. track_usage ?tr call = Inl (Exception ''ledger is down'')"
    by (simp_all add: chat_env_of_def)
  have tc: "token_counts [HumanMessage ''hello world!''] (reply_with None) = (6, 20)"
    by (simp add: token_counts_def extract_token_usage_def reply_with_def
        estimate_input_tokens_def estimate_output_tokens_def)
  have tk: "tracked (generate ?down ''deepseek-chat'' [HumanMessage ''hello world!''] None [])
      = [usage_call_of ?down ''deepseek-chat'' [HumanMessage ''hello world!''] [] 6 20]"
    using generate_tracked [OF d1 d3 d2 tc] by simp
  have "returned (generate ?reset ''deepseek-chat'' [HumanMessage ''hello world!''] None [])
          = Inl (Exception ''connection reset'')
        \<and> tracked (generate ?reset ''deepseek-chat'' [HumanMessage ''hello world!''] None []) = []
        \<and> logged_errors (generate ?reset ''deepseek-chat'' [HumanMessage ''hello world!''] None [])
          = [Exception ''connection reset'']"
    using generate_error_handling [of ?reset "[HumanMessage ''hello world!'']" None "[]"
        "Exception ''connection reset''" "''deepseek-chat''"] r
    by blast
  then have 1: "generate ?reset ''deepseek-chat'' [HumanMessage ''hello world!''] None []
     = \<lparr>returned = Inl (Exception ''connection reset''), tracked = [],
        logged_errors = [Exception ''connection reset'']\<rparr>"
    by (cases "generate ?reset ''deepseek-chat'' [HumanMessage ''hello world!''] None []") simp
  have "returned (generate ?down ''deepseek-chat'' [HumanMessage ''hello world!''] None [])
          = Inr (reply_with None)
        \<and> logged_errors (generate ?down ''deepseek-chat'' [HumanMessage ''hello world!''] None [])
          = map (\<lambda>call. Exception ''ledger is down'')
              (tracked (generate ?down ''deepseek-chat'' [HumanMessage ''hello world!''] None []))"
    using generate_error_handling [of ?down "[HumanMessage ''hello world!'']" None "[]" _
        "''deepseek-chat''" "reply_with None" ?tr "Exception ''ledger is down''"] d1 d2 d4
    by blast
  then show ?thesis using 1 tk by simp
qed

text \<open>
  C3, as the code has it. With tracking on and a dispatch that returned: a usage block
  whose \<open>prompt_tokens\<close> and \<open>completion_tokens\<close> are not both zero (one of them positive)
  is recorded exactly; without a usage block both counts are estimated, the number of
  characters divided by two and rounded down, but never less than one: the characters
  of all input messages for the input count, those of the generations for the output
  count.
\<close>

theorem recorded_token_counts:
  assumes "super_generate env messages stop (forwarded_kwargs kwargs) = Inr result"
    and "TOKEN_TRACKING_ENABLED env" and "token_tracker env = Some tr"
  shows "(llm_output result = Some out \<and> map_of out ''token_usage'' = Some tu
          \<and> map_of tu ''prompt_tokens'' = Some p \<and> map_of tu ''completion_tokens'' = Some c
          \<and> (0 < p \<or> 0 < c) \<longrightarrow>
            recorded_counts (generate env self_model_name messages stop kwargs) = [(p, c)])
         \<and> (llm_output result = None
             \<or> (\<exists>out. llm_output result = Some out \<and> map_of out ''token_usage'' = None) \<longrightarrow>
            recorded_counts (generate env self_model_name messages stop kwargs)
              = [(max 1 (sum_list (map (\<lambda>m. int (length (content m))) messages) div 2),
                  max 1 (sum_list (map (\<lambda>m. int (length (content m))) (generations result)) div 2))])"
proof (intro conjI impI)
  assume h: "llm_output result = Some out \<and> map_of out ''token_usage'' = Some tu
          \<and> map_of tu ''prompt_tokens'' = Some p \<and> map_of tu ''completion_tokens'' = Some c
          \<and> (0 < p \<or> 0 < c)"
  then have "extract_token_usage result = (p, c)"
    by (simp add: extract_usage_block)
  moreover have "p \<noteq> 0 \<or> c \<noteq> 0" using h by auto
  ultimately have "token_counts messages result = (p, c)"
    by (rule token_counts_of_block)
  from generate_recorded_counts [OF assms this] h
  show "recorded_counts (generate env self_model_name messages stop kwargs) = [(p, c)]"
    by simp
next
  assume "llm_output result = None
             \<or> (\<exists>out. llm_output result = Some out \<and> map_of out ''token_usage'' = None)"
  then have "extract_token_usage result = (0, 0)"
    by (rule extract_no_usage_block)
  then have "token_counts messages result
               = (estimate_input_tokens messages, estimate_output_tokens result)"
    by (rule token_counts_estimated)
  moreover have "0 < estimate_input_tokens messages"
    using estimates_positive(1) [of messages] by linarith
  ultimately have "recorded_counts (generate env self_model_name messages stop kwargs)
              = [(estimate_input_tokens messages, estimate_output_tokens result)]"
    using generate_recorded_counts [OF assms] by simp
  then show "recorded_counts (generate env self_model_name messages stop kwargs)
              = [(max 1 (sum_list (map (\<lambda>m. int (length (content m))) messages) div 2),
                  max 1 (sum_list (map (\<lambda>m. int (length (content m))) (generations result)) div 2))]"
    by (simp add: estimate_input_tokens_def estimate_output_tokens_def Let_def)
qed

theorem recorded_token_counts_witness:
  "recorded_counts (generate
      (chat_env_of (Inr (reply_with (Some [(''prompt_tokens'', 50), (''completion_tokens'', 20)]))) (Inr None))
      ''deepseek-chat'' [HumanMessage ''hello world!''] None []) = [(50, 20)]
   \<and> recorded_counts (generate (chat_env_of (Inr (reply_with None)) (Inr None))
      ''deepseek-chat'' [HumanMessage ''hello world!''] None []) = [(6, 20)]"
proof -
  let ?block = "[(''prompt_tokens'', 50), (''completion_tokens'', 20)] :: token_usage"
  let ?e1 = "chat_env_of (Inr (reply_with (Some ?block))) (Inr None)"
  let ?e2 = "chat_env_of (Inr (reply_with None)) (Inr None)"
  have a1: "super_generate ?e1 [HumanMessage ''hello world!''] None (forwarded_kwargs [])
             = Inr (reply_with (Some ?block))"
    and b1: "TOKEN_TRACKING_ENABLED ?e1"
    and c1: "token_tracker ?e1 = Some \<lparr>track_usage = (\<lambda>call. Inr None)\<rparr>"
    by (simp_all add: chat_env_of_def)
  have a2: "super_generate ?e2 [HumanMessage ''hello world!''] None (forwarded_kwargs [])
             = Inr (reply_with None)"
    and b2: "TOKEN_TRACKING_ENABLED ?e2"
    and c2: "token_tracker ?e2 = Some \<lparr>track_usage = (\<lambda>call. Inr None)\<rparr>"
    by (simp_all add: chat_env_of_def)
  have "recorded_counts (generate ?e1 ''deepseek-chat'' [HumanMessage ''hello world!''] None [])
          = [(50, 20)]"
    using recorded_token_counts [OF a1 b1 c1, of "[(''token_usage'', ?block)]" ?block 50 20
        "''deepseek-chat''"]
    by (simp add: reply_with_def)
  moreover have "recorded_counts (generate ?e2 ''deepseek-chat'' [HumanMessage ''hello world!''] None [])
          = [(6, 20)]"
    using recorded_token_counts [OF a2 b2 c2, of "[]" "[]" 0 0 "''deepseek-chat''"]
    by (simp add: reply_with_def)
  ultimately show ?thesis by blast
qed

text \<open>
  A usage block that reports zero and zero is not recorded as it is: the estimates take
  its place (here 6 for the twelve characters of the input and 20 for the forty of the
  reply).
\<close>

theorem zero_usage_block_overridden:
  "recorded_counts (generate
      (chat_env_of (Inr (reply_with (Some [(''prompt_tokens'', 0), (''completion_tokens'', 0)]))) (Inr None))
      ''deepseek-chat'' [HumanMessage ''hello world!''] None []) = [(6, 20)]"
  by (simp add: recorded_counts_def generate_def chat_env_of_def reply_with_def token_counts_def
      extract_token_usage_def estimate_input_tokens_def estimate_output_tokens_def
      usage_call_of_def Let_def)


text \<open>
  C10. With tracking on and a dispatch that returned: the estimates are used exactly when
  the two counts read from the response are both zero; a usage block that reports zero
  and zero is recorded as the estimates, each at least one (also for empty content); a
  block with one count zero and the other positive is recorded as it is; and, the
  counts of a usage block being no negative numbers, a usage record is always attempted.
\<close>

theorem estimation_fallback_trigger:
  assumes "super_generate env messages stop (forwarded_kwargs kwargs) = Inr result"
    and "TOKEN_TRACKING_ENABLED env" and "token_tracker env = Some tr"
  shows "token_counts messages result
           = (if extract_token_usage result = (0, 0)
              then (estimate_input_tokens messages, estimate_output_tokens result)
              else extract_token_usage result)
         \<and> (llm_output result = Some out \<and> map_of out ''token_usage'' = Some tu
            \<and> map_of tu ''prompt_tokens'' = Some 0 \<and> map_of tu ''completion_tokens'' = Some 0 \<longrightarrow>
              recorded_counts (generate env self_model_name messages stop kwargs)
                = [(estimate_input_tokens messages, estimate_output_tokens result)]
              \<and> 1 \<le> estimate_input_tokens messages \<and> 1 \<le> estimate_output_tokens result)
         \<and> (llm_output result = Some out \<and> map_of out ''token_usage'' = Some tu
            \<and> map_of tu ''prompt_tokens'' = Some p \<and> map_of tu ''completion_tokens'' = Some c
            \<and> (p = 0 \<and> 0 < c \<or> 0 < p \<and> c = 0) \<longrightarrow>
              recorded_counts (generate env self_model_name messages stop kwargs) = [(p, c)])
         \<and> (0 \<le> fst (extract_token_usage result) \<and> 0 \<le> snd (extract_token_usage result) \<longrightarrow>
              tracked (generate env self_model_name messages stop kwargs) \<noteq> [])"
proof (intro conjI impI)
  show "token_counts messages result
           = (if extract_token_usage result = (0, 0)
              then (estimate_input_tokens messages, estimate_output_tokens result)
              else extract_token_usage result)"
    by (cases "extract_token_usage result") (simp add: token_counts_def)
next
  assume h: "llm_output result = Some out \<and> map_of out ''token_usage'' = Some tu
            \<and> map_of tu ''prompt_tokens'' = Some 0 \<and> map_of tu ''completion_tokens'' = Some 0"
  then have "extract_token_usage result = (0, 0)"
    by (simp add: extract_usage_block)
  then have "token_counts messages result
               = (estimate_input_tokens messages, estimate_output_tokens result)"
    by (rule token_counts_estimated)
  moreover have "0 < estimate_input_tokens messages"
    using estimates_positive(1) [of messages] by linarith
  ultimately show "recorded_counts (generate env self_model_name messages stop kwargs)
                = [(estimate_input_tokens messages, estimate_output_tokens result)]"
    using generate_recorded_counts [OF assms] by simp
  show "1 \<le> estimate_input_tokens messages" "1 \<le> estimate_output_tokens result"
    by (rule estimates_positive)+
next
  assume h: "llm_output result = Some out \<and> map_of out ''token_usage'' = Some tu
            \<and> map_of tu ''prompt_tokens'' = Some p \<and> map_of tu ''completion_tokens'' = Some c
            \<and> (p = 0 \<and> 0 < c \<or> 0 < p \<and> c = 0)"
  then have "extract_token_usage result = (p, c)"
    by (simp add: extract_usage_block)
  moreover have "p \<noteq> 0 \<or> c \<noteq> 0" using h by auto
  ultimately have "token_counts messages result = (p, c)"
    by (rule token_counts_of_block)
  from generate_recorded_counts [OF assms this] h
  show "recorded_counts (generate env self_model_name messages stop kwargs) = [(p, c)]"
    by auto
next
  assume nn: "0 \<le> fst (extract_token_usage result) \<and> 0 \<le> snd (extract_token_usage result)"
  obtain i c where tc: "token_counts messages result = (i, c)"
    by (cases "token_counts messages result") auto
  have "0 < i \<or> 0 < c"
  proof (cases "extract_token_usage result = (0, 0)")
    case True
    then have "i = estimate_input_tokens messages"
      using tc by (simp add: token_counts_def)
    then show ?thesis using estimates_positive(1) [of messages] by linarith
  next
    case False
    then have "(i, c) = extract_token_usage result"
      using tc by (cases "extract_token_usage result") (auto simp: token_counts_def)
    then show ?thesis using nn False by (cases "extract_token_usage result") auto
  qed
  then show "tracked (generate env self_model_name messages stop kwargs) \<noteq> []"
    using generate_tracked [OF assms tc] by auto
qed

theorem estimation_fallback_trigger_witness:
  "recorded_counts (generate
      (chat_env_of (Inr (reply_with (Some [(''prompt_tokens'', 0), (''completion_tokens'', 7)]))) (Inr None))
      ''deepseek-chat'' [HumanMessage ''hello world!''] None []) = [(0, 7)]
   \<and> recorded_counts (generate
      (chat_env_of (Inr (reply_with (Some [(''prompt_tokens'', 0), (''completion_tokens'', 0)]))) (Inr None))
      ''deepseek-chat'' [] None [])
      = [(estimate_input_tokens [],
          estimate_output_tokens (reply_with (Some [(''prompt_tokens'', 0), (''completion_tokens'', 0)])))]
   \<and> estimate_input_tokens [] = 1
   \<and> tracked (generate
      (chat_env_of (Inr (reply_with (Some [(''prompt_tokens'', 0), (''completion_tokens'', 0)]))) (Inr None))
      ''deepseek-chat'' [] None []) \<noteq> []"
proof -
  let ?b07 = "[(''prompt_tokens'', 0), (''completion_tokens'', 7)] :: token_usage"
  let ?b00 = "[(''prompt_tokens'', 0), (''completion_tokens'', 0)] :: token_usage"
  let ?e07 = "chat_env_of (Inr (reply_with (Some ?b07))) (Inr None)"
  let ?e00 = "chat_env_of (Inr (reply_with (Some ?b00))) (Inr None)"
  have a1: "super_generate ?e07 [HumanMessage ''hello world!''] None (forwarded_kwargs [])
             = Inr (reply_with (Some ?b07))"
    and b1: "TOKEN_TRACKING_ENABLED ?e07"
    and c1: "token_tracker ?e07 = Some \<lparr>track_usage = (\<lambda>call. Inr None)\<rparr>"
    by (simp_all add: chat_env_of_def)
  have a2: "super_generate ?e00 [] None (forwarded_kwargs []) = Inr (reply_with (Some ?b00))"
    and b2: "TOKEN_TRACKING_ENABLED ?e00"
    and c2: "token_tracker ?e00 = Some \<lparr>track_usage = (\<lambda>call. Inr None)\<rparr>"
    by (simp_all add: chat_env_of_def)
  have x00: "extract_token_usage (reply_with (Some ?b00)) = (0, 0)"
    by (simp add: extract_token_usage_def reply_with_def)
  have "recorded_counts (generate ?e07 ''deepseek-chat'' [HumanMessage ''hello world!''] None [])
          = [(0, 7)]"
    using estimation_fallback_trigger [OF a1 b1 c1, of "[(''token_usage'', ?b07)]" ?b07
        "''deepseek-chat''" 0 7]
    by (simp add: reply_with_def)
  moreover have "recorded_counts (generate ?e00 ''deepseek-chat'' [] None [])
      = [(estimate_input_tokens [], estimate_output_tokens (reply_with (Some ?b00)))]
      \<and> tracked (generate ?e00 ''deepseek-chat'' [] None []) \<noteq> []"
    using estimation_fallback_trigger [OF a2 b2 c2, of "[(''token_usage'', ?b00)]" ?b00
        "''deepseek-chat''" 0 0] x00
    by (simp add: reply_with_def)
  moreover have "estimate_input_tokens [] = 1"
    by (simp add: estimate_input_tokens_def)
  ultimately show ?thesis by blast
qed

lemma all_messages_unchanged:
  "list_all is_base_message items \<Longrightarrow> [m. ItemMessage m \<leftarrow> items] = map convert_item items"
proof (induction items)
  case Nil
  then show ?case by simp
next
  case (Cons a items)
  then show ?case by (cases a) simp_all
qed

text \<open>
  C8. A bare string becomes one human message with that string. A list becomes one
  message for each element, in order: the pair \<open>("system", x)\<close> becomes the system message
  with content \<open>x\<close>; an element that is no message, no string and no pair becomes the
  human message with its string form; and a pair whose first component is none of
  \<open>human\<close>, \<open>ai\<close>, \<open>system\<close> becomes the human message with the string form of its second
  component.
\<close>

theorem invoke_input_normalization:
  "invoke_messages (InputStr s) = [HumanMessage s]
   \<and> length (invoke_messages (InputList items)) = length items
   \<and> (ItemTuple2 ''system'' x \<in> set items \<longrightarrow>
        SystemMessage x \<in> set (invoke_messages (InputList items)))
   \<and> (i < length items \<and> items ! i = ItemTuple2 ''system'' x \<longrightarrow>
        invoke_messages (InputList items) ! i = SystemMessage x)
   \<and> (i < length items \<and> items ! i = ItemOther str_form \<longrightarrow>
        invoke_messages (InputList items) ! i = HumanMessage str_form)
   \<and> (i < length items \<and> items ! i = ItemTuple2 role c
        \<and> role \<noteq> ''human'' \<and> role \<noteq> ''ai'' \<and> role \<noteq> ''system'' \<longrightarrow>
        invoke_messages (InputList items) ! i = HumanMessage c)"
proof -
  have m: "invoke_messages (InputList items) = map convert_item items"
    by (simp add: invoke_messages_def all_messages_unchanged)
  have "ItemTuple2 ''system'' x \<in> set items \<Longrightarrow> SystemMessage x \<in> set (map convert_item items)"
  proof -
    assume "ItemTuple2 ''system'' x \<in> set items"
    then have "convert_item (ItemTuple2 ''system'' x) \<in> convert_item ` set items"
      by (rule imageI)
    then show ?thesis by simp
  qed
  then show ?thesis
    unfolding m by (simp add: invoke_messages_def)
qed

theorem invoke_input_normalization_witness:
  "invoke_messages (InputList [ItemStr ''hi'', ItemTuple2 ''system'' ''x'', ItemOther ''{1: 2}'',
       ItemTuple2 ''user'' ''y''])
     = [HumanMessage ''hi'', SystemMessage ''x'', HumanMessage ''{1: 2}'', HumanMessage ''y'']"
proof -
  let ?items = "[ItemStr ''hi'', ItemTuple2 ''system'' ''x'', ItemOther ''{1: 2}'',
       ItemTuple2 ''user'' ''y'']"
  have "length (invoke_messages (InputList ?items)) = 4"
    using invoke_input_normalization [of "''hi''" ?items "''x''" 1 "''{1: 2}''" "''user''" "''y''"]
    by simp
  moreover have "invoke_messages (InputList ?items) ! 1 = SystemMessage ''x''"
    using invoke_input_normalization [of "''hi''" ?items "''x''" 1 "''{1: 2}''" "''user''" "''y''"]
    by simp
  moreover have "invoke_messages (InputList ?items) ! 2 = HumanMessage ''{1: 2}''"
    using invoke_input_normalization [of "''hi''" ?items "''x''" 2 "''{1: 2}''" "''user''" "''y''"]
    by simp
  moreover have "invoke_messages (InputList ?items) ! 3 = HumanMessage ''y''"
    using invoke_input_normalization [of "''hi''" ?items "''x''" 3 "''{1: 2}''" "''user''" "''y''"]
    by simp
  moreover have "invoke_messages (InputList ?items) ! 0 = HumanMessage ''hi''"
    by (simp add: invoke_messages_def)
  ultimately show ?thesis
    by (simp add: invoke_messages_def)
qed


section \<open>The calendar arithmetic\<close>

text \<open>
  \<open>_ord2ymd\<close> inverts \<open>_ymd2ord\<close> and yields a date of the calendar; the day number grows
  with the year; and the format \<open>%Y%m%d\<close> prints eight digits from year 1000 on.
\<close>

lemma cycle_lengths: "DI400Y = 146097" "DI100Y = 36524" "DI4Y = 1461"
  by (simp_all add: DI400Y_def DI100Y_def DI4Y_def days_before_year_def)

lemma div_decomp: "0 \<le> r \<Longrightarrow> r < k \<Longrightarrow> (r + k * q) div k = (q::int)"
  by (simp add: div_pos_pos_trivial)

lemma mod_decomp: "0 \<le> r \<Longrightarrow> r < k \<Longrightarrow> (r + k * q) mod k = (r::int)"
  by (simp add: mod_pos_pos_trivial)

lemma days_before_year_decomposed:
  assumes "0 \<le> b" "b \<le> 3" "0 \<le> c" "c \<le> 24" "0 \<le> e" "e \<le> 3"
  shows "days_before_year (400 * a + 100 * b + 4 * c + e + 1)
           = 146097 * a + 36524 * b + 1461 * c + 365 * e"
proof -
  let ?y = "400 * a + 100 * b + 4 * c + e"
  have "?y = e + 4 * (100 * a + 25 * b + c)" by simp
  then have d4: "?y div 4 = 100 * a + 25 * b + c"
    using div_decomp [of e 4 "100 * a + 25 * b + c"] assms by simp
  have "?y = (4 * c + e) + 100 * (4 * a + b)" by simp
  then have d100: "?y div 100 = 4 * a + b"
    using div_decomp [of "4 * c + e" 100 "4 * a + b"] assms by simp
  have "?y = (100 * b + 4 * c + e) + 400 * a" by simp
  then have d400: "?y div 400 = a"
    using div_decomp [of "100 * b + 4 * c + e" 400 a] assms by simp
  show ?thesis
    using d4 d100 d400 by (simp add: days_before_year_def)
qed

lemma is_leap_decomposed:
  assumes "0 \<le> b" "b \<le> 3" "0 \<le> c" "c \<le> 24" "0 \<le> e" "e \<le> 3"
  shows "is_leap (400 * a + 100 * b + 4 * c + e + 1) = (e = 3 \<and> (c \<noteq> 24 \<or> b = 3))"
proof -
  let ?y = "400 * a + 100 * b + 4 * c + e + 1"
  have m4: "?y mod 4 = (e + 1) mod 4"
  proof -
    have "?y = (e + 1) + 4 * (100 * a + 25 * b + c)" by simp
    then show ?thesis by (metis mod_mult_self2)
  qed
  have m100: "?y mod 100 = (4 * c + e + 1) mod 100"
  proof -
    have "?y = (4 * c + e + 1) + 100 * (4 * a + b)" by simp
    then show ?thesis by (metis mod_mult_self2)
  qed
  have m400: "?y mod 400 = (100 * b + 4 * c + e + 1) mod 400"
  proof -
    have "?y = (100 * b + 4 * c + e + 1) + 400 * a" by simp
    then show ?thesis by (metis mod_mult_self2)
  qed
  have e4: "(e + 1) mod 4 = 0 \<longleftrightarrow> e = 3"
  proof -
    from assms consider "e = 0" | "e = 1" | "e = 2" | "e = 3" by linarith
    then show ?thesis by cases simp_all
  qed
  have c100: "(4 * c + e + 1) mod 100 = 0 \<longleftrightarrow> (c = 24 \<and> e = 3)"
  proof (cases "c = 24 \<and> e = 3")
    case True
    then show ?thesis by simp
  next
    case False
    then have "0 < 4 * c + e + 1" "4 * c + e + 1 < 100" using assms by linarith+
    then have "(4 * c + e + 1) mod 100 = 4 * c + e + 1" by simp
    then show ?thesis using False \<open>0 < 4 * c + e + 1\<close> by simp
  qed
  have b400: "(100 * b + 4 * c + e + 1) mod 400 = 0 \<longleftrightarrow> (b = 3 \<and> c = 24 \<and> e = 3)"
  proof (cases "b = 3 \<and> c = 24 \<and> e = 3")
    case True
    then show ?thesis by simp
  next
    case False
    then have "0 < 100 * b + 4 * c + e + 1" "100 * b + 4 * c + e + 1 < 400"
      using assms by linarith+
    then have "(100 * b + 4 * c + e + 1) mod 400 = 100 * b + 4 * c + e + 1" by simp
    then show ?thesis using False \<open>0 < 100 * b + 4 * c + e + 1\<close> by simp
  qed
  show ?thesis unfolding is_leap_def m4 m100 m400 e4 c100 b400 by blast
qed

lemma month_day_at:
  fixes nd k :: int
  assumes "(nd + 50) div 32 = k"
  shows "32 * k - 50 \<le> nd \<and> nd \<le> 32 * k - 19"
proof -
  have "nd + 50 = 32 * ((nd + 50) div 32) + (nd + 50) mod 32" by simp
  moreover have "0 \<le> (nd + 50) mod 32" "(nd + 50) mod 32 < 32" by simp_all
  ultimately show ?thesis using assms(1) by linarith
qed

lemma month_day_valid:
  fixes nd :: int
  assumes "0 \<le> nd" and "nd \<le> 364"
  shows "month_day_ok leapyear nd (month_day leapyear nd)"
proof -
  define k where "k = (nd + 50) div 32"
  have "(50::int) div 32 \<le> (nd + 50) div 32"
    using assms by (intro zdiv_mono1) simp_all
  moreover have "(nd + 50) div 32 \<le> (414::int) div 32"
    using assms by (intro zdiv_mono1) simp_all
  ultimately have "1 \<le> k" "k \<le> 12"
    unfolding k_def by simp_all
  then have "k = 1 \<or> k = 2 \<or> k = 3 \<or> k = 4 \<or> k = 5 \<or> k = 6
      \<or> k = 7 \<or> k = 8 \<or> k = 9 \<or> k = 10 \<or> k = 11 \<or> k = 12"
    by presburger
  then consider "k = 1" | "k = 2" | "k = 3" | "k = 4" | "k = 5" | "k = 6"
    | "k = 7" | "k = 8" | "k = 9" | "k = 10" | "k = 11" | "k = 12"
    by blast
  then show ?thesis
    by cases
      (insert month_day_at [of nd k] k_def assms,
        simp_all add: month_day_def month_day_ok_def DAYS_BEFORE_MONTH_def DAYS_IN_MONTH_def)
qed

lemma split_div_mod:
  fixes x k :: int
  assumes "0 < k"
  shows "x = k * (x div k) + x mod k \<and> 0 \<le> x mod k \<and> x mod k < k"
  using assms by simp

lemma cycle_digits:
  fixes n :: int
  defines "r1 \<equiv> (n - 1) mod 146097"
  defines "b \<equiv> r1 div 36524" and "r2 \<equiv> r1 mod 36524"
  defines "c \<equiv> r2 div 1461" and "r3 \<equiv> r2 mod 1461"
  defines "e \<equiv> r3 div 365" and "r4 \<equiv> r3 mod 365"
  shows "0 \<le> b \<and> b \<le> 4 \<and> 0 \<le> c \<and> c \<le> 24 \<and> 0 \<le> e \<and> e \<le> 4 \<and> 0 \<le> r4 \<and> r4 \<le> 364
         \<and> (b = 4 \<longrightarrow> c = 0 \<and> e = 0 \<and> r4 = 0) \<and> (e = 4 \<longrightarrow> c \<le> 23 \<and> r4 = 0)
         \<and> n - 1 = 146097 * ((n - 1) div 146097) + 36524 * b + 1461 * c + 365 * e + r4"
proof -
  have n: "n - 1 = 146097 * ((n - 1) div 146097) + r1" "0 \<le> r1" "r1 < 146097"
    using split_div_mod [of 146097 "n - 1"] by (simp_all add: r1_def)
  have r1: "r1 = 36524 * b + r2" "0 \<le> r2" "r2 < 36524"
    using split_div_mod [of 36524 r1] by (simp_all add: b_def r2_def)
  have r2: "r2 = 1461 * c + r3" "0 \<le> r3" "r3 < 1461"
    using split_div_mod [of 1461 r2] by (simp_all add: c_def r3_def)
  have r3: "r3 = 365 * e + r4" "0 \<le> r4" "r4 < 365"
    using split_div_mod [of 365 r3] by (simp_all add: e_def r4_def)
  have b0: "0 \<le> b" using n(2) by (simp add: b_def pos_imp_zdiv_nonneg_iff)
  have c0: "0 \<le> c" using r1(2) by (simp add: c_def pos_imp_zdiv_nonneg_iff)
  have e0: "0 \<le> e" using r2(2) by (simp add: e_def pos_imp_zdiv_nonneg_iff)
  have b4: "b \<le> 4" using n(3) r1 by linarith
  have c24: "c \<le> 24" using r1 r2 by linarith
  have e4: "e \<le> 4" using r2 r3 by linarith
  have "b = 4 \<longrightarrow> c = 0 \<and> e = 0 \<and> r4 = 0" using n r1 r2 r3 b0 c0 e0 by linarith
  moreover have "e = 4 \<longrightarrow> c \<le> 23 \<and> r4 = 0" using r1 r2 r3 c24 by linarith
  ultimately show ?thesis
    using n r1 r2 r3 b0 c0 e0 b4 c24 e4 by linarith
qed

lemma ord2ymd_correct:
  fixes n :: int
  shows "case ord2ymd n of (y, m, d) \<Rightarrow>
           1 \<le> m \<and> m \<le> 12 \<and> 1 \<le> d \<and> d \<le> days_in_month y m \<and> ymd2ord y m d = n"
proof -
  define a where "a = (n - 1) div 146097"
  define r1 where "r1 = (n - 1) mod 146097"
  define b where "b = r1 div 36524"
  define r2 where "r2 = r1 mod 36524"
  define c where "c = r2 div 1461"
  define r3 where "r3 = r2 mod 1461"
  define e where "e = r3 div 365"
  define r4 where "r4 = r3 mod 365"
  note defs = a_def r1_def b_def r2_def c_def r3_def e_def r4_def
  have digits: "0 \<le> b \<and> b \<le> 4 \<and> 0 \<le> c \<and> c \<le> 24 \<and> 0 \<le> e \<and> e \<le> 4 \<and> 0 \<le> r4 \<and> r4 \<le> 364
         \<and> (b = 4 \<longrightarrow> c = 0 \<and> e = 0 \<and> r4 = 0) \<and> (e = 4 \<longrightarrow> c \<le> 23 \<and> r4 = 0)
         \<and> n - 1 = 146097 * a + 36524 * b + 1461 * c + 365 * e + r4"
    unfolding defs by (rule cycle_digits)
  have unfold: "ord2ymd n =
     (if e = 4 \<or> b = 4 then (a * 400 + 1 + b * 100 + c * 4 + e - 1, 12, 31)
      else (case month_day (e = 3 \<and> (c \<noteq> 24 \<or> b = 3)) r4 of
              (m, d) \<Rightarrow> (a * 400 + 1 + b * 100 + c * 4 + e, m, d)))"
    unfolding ord2ymd_def Let_def cycle_lengths defs by (rule refl)
  show ?thesis
  proof (cases "b = 4")
    case True
    then have z: "c = 0" "e = 0" "r4 = 0" using digits by auto
    have y: "a * 400 + 1 + b * 100 + c * 4 + e - 1 = 400 * a + 100 * 3 + 4 * 24 + 3 + 1"
      using True z by simp
    have leap: "is_leap (400 * a + 100 * 3 + 4 * 24 + 3 + 1)"
      using is_leap_decomposed [of 3 24 3 a] by simp
    have dby: "days_before_year (400 * a + 100 * 3 + 4 * 24 + 3 + 1)
                 = 146097 * a + 36524 * 3 + 1461 * 24 + 365 * 3"
      using days_before_year_decomposed [of 3 24 3 a] by simp
    have "ord2ymd n = (400 * a + 100 * 3 + 4 * 24 + 3 + 1, 12, 31)"
      using True unfold y by simp
    moreover have "ymd2ord (400 * a + 100 * 3 + 4 * 24 + 3 + 1) 12 31 = n"
      using digits True z leap dby
      by (simp add: ymd2ord_def days_before_month_def DAYS_BEFORE_MONTH_def)
    moreover have "31 \<le> days_in_month (400 * a + 100 * 3 + 4 * 24 + 3 + 1) 12"
      by (simp add: days_in_month_def DAYS_IN_MONTH_def)
    ultimately show ?thesis by simp
  next
    case b3: False
    then have b: "0 \<le> b" "b \<le> 3" using digits by auto
    show ?thesis
    proof (cases "e = 4")
      case True
      then have z: "c \<le> 23" "r4 = 0" using digits by auto
      have c0: "0 \<le> c" using digits by auto
      have y: "a * 400 + 1 + b * 100 + c * 4 + e - 1 = 400 * a + 100 * b + 4 * c + 3 + 1"
        using True by simp
      have leap: "is_leap (400 * a + 100 * b + 4 * c + 3 + 1)"
        using is_leap_decomposed [of b c 3 a] b c0 z by simp
      have dby: "days_before_year (400 * a + 100 * b + 4 * c + 3 + 1)
                 = 146097 * a + 36524 * b + 1461 * c + 365 * 3"
        using days_before_year_decomposed [of b c 3 a] b c0 z by simp
      have "ord2ymd n = (400 * a + 100 * b + 4 * c + 3 + 1, 12, 31)"
        using True unfold y by simp
      moreover have "ymd2ord (400 * a + 100 * b + 4 * c + 3 + 1) 12 31 = n"
        using digits True z leap dby
        by (simp add: ymd2ord_def days_before_month_def DAYS_BEFORE_MONTH_def)
      moreover have "31 \<le> days_in_month (400 * a + 100 * b + 4 * c + 3 + 1) 12"
        by (simp add: days_in_month_def DAYS_IN_MONTH_def)
      ultimately show ?thesis by simp
    next
      case e3: False
      then have e: "0 \<le> e" "e \<le> 3" using digits by auto
      have c: "0 \<le> c" "c \<le> 24" using digits by auto
      have r4: "0 \<le> r4" "r4 \<le> 364" using digits by auto
      define y where "y = 400 * a + 100 * b + 4 * c + e + 1"
      have yy: "a * 400 + 1 + b * 100 + c * 4 + e = y" by (simp add: y_def)
      have leap: "is_leap y = (e = 3 \<and> (c \<noteq> 24 \<or> b = 3))"
        unfolding y_def using is_leap_decomposed [OF b c e] .
      have dby: "days_before_year y = 146097 * a + 36524 * b + 1461 * c + 365 * e"
        unfolding y_def using days_before_year_decomposed [OF b c e] .
      obtain m d where md: "month_day (is_leap y) r4 = (m, d)"
        by (cases "month_day (is_leap y) r4") auto
      have ok: "month_day_ok (is_leap y) r4 (m, d)"
        using month_day_valid [OF r4, of "is_leap y"] md by simp
      have "ord2ymd n = (y, m, d)"
        using b3 e3 unfold yy md leap by simp
      moreover have "ymd2ord y m d = n"
        using ok dby digits by (simp add: month_day_ok_def ymd2ord_def days_before_month_def)
      moreover have "1 \<le> m \<and> m \<le> 12 \<and> 1 \<le> d \<and> d \<le> days_in_month y m"
        using ok by (simp add: month_day_ok_def days_in_month_def)
      ultimately show ?thesis by simp
    qed
  qed
qed

lemma div_step:
  fixes y k :: int
  assumes "0 < k"
  shows "y div k = (y - 1) div k + (if y mod k = 0 then 1 else 0)"
proof (cases "y mod k = 0")
  case True
  have eq: "y - 1 = (k - 1) + k * (y div k - 1)"
    using True split_div_mod [OF assms, of y] by (simp add: algebra_simps)
  have "0 \<le> k - 1" "k - 1 < k" using assms by simp_all
  then have "((k - 1) + k * (y div k - 1)) div k = y div k - 1"
    by (rule div_decomp)
  then have "(y - 1) div k = y div k - 1"
    by (simp only: eq [symmetric])
  then show ?thesis using True by simp
next
  case False
  have r: "0 \<le> y mod k - 1" "y mod k - 1 < k"
    using False split_div_mod [OF assms, of y] by auto
  have eq: "y - 1 = (y mod k - 1) + k * (y div k)"
    using split_div_mod [OF assms, of y] by simp
  have "((y mod k - 1) + k * (y div k)) div k = y div k"
    using r by (rule div_decomp)
  then have "(y - 1) div k = y div k"
    by (simp only: eq [symmetric])
  then show ?thesis using False by simp
qed

lemma days_before_year_succ:
  "days_before_year (y + 1) = days_before_year y + 365 + (if is_leap y then 1 else 0)"
proof -
  have "y mod 4 = y mod 100 mod 4" by (simp add: mod_mod_cancel)
  then have m100: "y mod 100 = 0 \<Longrightarrow> y mod 4 = 0" by simp
  have "y mod 100 = y mod 400 mod 100" by (simp add: mod_mod_cancel)
  then have m400: "y mod 400 = 0 \<Longrightarrow> y mod 100 = 0" by simp
  have d4: "y div 4 = (y - 1) div 4 + (if y mod 4 = 0 then 1 else 0)"
    by (rule div_step) simp
  have d100: "y div 100 = (y - 1) div 100 + (if y mod 100 = 0 then 1 else 0)"
    by (rule div_step) simp
  have d400: "y div 400 = (y - 1) div 400 + (if y mod 400 = 0 then 1 else 0)"
    by (rule div_step) simp
  have dby: "days_before_year y
               = (y - 1) * 365 + (y - 1) div 4 - (y - 1) div 100 + (y - 1) div 400"
    by (simp add: days_before_year_def Let_def)
  have dby1: "days_before_year (y + 1) = y * 365 + y div 4 - y div 100 + y div 400"
    by (simp add: days_before_year_def Let_def)
  show ?thesis
  proof (cases "y mod 4 = 0")
    case m4: True
    show ?thesis
    proof (cases "y mod 100 = 0")
      case c100: True
      show ?thesis
      proof (cases "y mod 400 = 0")
        case True
        then have "is_leap y" using m4 by (simp add: is_leap_def)
        then show ?thesis using dby dby1 d4 d100 d400 m4 c100 True by simp
      next
        case False
        then have "\<not> is_leap y" using c100 by (simp add: is_leap_def)
        then show ?thesis using dby dby1 d4 d100 d400 m4 c100 False by simp
      qed
    next
      case False
      then have n400: "y mod 400 \<noteq> 0" using m400 by auto
      have "is_leap y" using m4 False by (simp add: is_leap_def)
      then show ?thesis using dby dby1 d4 d100 d400 m4 False n400 by simp
    qed
  next
    case False
    then have n100: "y mod 100 \<noteq> 0" using m100 by auto
    then have n400: "y mod 400 \<noteq> 0" using m400 by auto
    have "\<not> is_leap y" using False by (simp add: is_leap_def)
    then show ?thesis using dby dby1 d4 d100 d400 False n100 n400 by simp
  qed
qed

lemma days_before_year_mono_nat:
  "days_before_year y \<le> days_before_year (y + int k)"
proof (induction k)
  case 0
  then show ?case by simp
next
  case (Suc k)
  have "days_before_year (y + int k) \<le> days_before_year ((y + int k) + 1)"
    unfolding days_before_year_succ by simp
  moreover have "(y + int k) + 1 = y + int (Suc k)" by simp
  ultimately have "days_before_year (y + int k) \<le> days_before_year (y + int (Suc k))"
    by (simp only:)
  then show ?case using Suc by (rule order_trans [rotated])
qed

lemma days_before_year_mono:
  assumes "y \<le> y'"
  shows "days_before_year y \<le> days_before_year y'"
proof -
  have "y' = y + int (nat (y' - y))" using assms by simp
  then show ?thesis using days_before_year_mono_nat by metis
qed

lemma ymd2ord_bounds:
  assumes "1 \<le> m" "m \<le> 12" "1 \<le> d" "d \<le> days_in_month y m"
  shows "days_before_year y + 1 \<le> ymd2ord y m d \<and> ymd2ord y m d \<le> days_before_year (y + 1)"
proof -
  from assms(1,2) have "m = 1 \<or> m = 2 \<or> m = 3 \<or> m = 4 \<or> m = 5 \<or> m = 6
      \<or> m = 7 \<or> m = 8 \<or> m = 9 \<or> m = 10 \<or> m = 11 \<or> m = 12"
    by presburger
  then consider "m = 1" | "m = 2" | "m = 3" | "m = 4" | "m = 5" | "m = 6"
    | "m = 7" | "m = 8" | "m = 9" | "m = 10" | "m = 11" | "m = 12"
    by blast
  then show ?thesis
    by cases
      (insert assms(3,4),
        simp_all add: ymd2ord_def days_before_year_succ days_before_month_def days_in_month_def
          DAYS_BEFORE_MONTH_def DAYS_IN_MONTH_def split: if_splits)
qed

lemma fromordinal_valid:
  assumes "1 \<le> n" and "n \<le> MAXORDINAL"
  shows "valid_date (fromordinal n) \<and> toordinal (fromordinal n) = n"
proof -
  obtain y m d where o: "ord2ymd n = (y, m, d)"
    by (cases "ord2ymd n") auto
  have c: "1 \<le> m" "m \<le> 12" "1 \<le> d" "d \<le> days_in_month y m" "ymd2ord y m d = n"
    using ord2ymd_correct [of n] o by simp_all
  have b: "days_before_year y + 1 \<le> n" "n \<le> days_before_year (y + 1)"
    using ymd2ord_bounds [OF c(1-4)] c(5) by simp_all
  have "1 \<le> y"
  proof (rule ccontr)
    assume "\<not> 1 \<le> y"
    then have "y + 1 \<le> 1" by simp
    then have "days_before_year (y + 1) \<le> days_before_year 1"
      by (rule days_before_year_mono)
    then show False using b(2) assms(1) by (simp add: days_before_year_def)
  qed
  moreover have "y \<le> 9999"
  proof (rule ccontr)
    assume "\<not> y \<le> 9999"
    then have "10000 \<le> y" by simp
    then have "days_before_year 10000 \<le> days_before_year y"
      by (rule days_before_year_mono)
    then show False using b(1) assms(2) by (simp add: days_before_year_def MAXORDINAL_def)
  qed
  ultimately show ?thesis
    using c o by (simp add: valid_date_def fromordinal_def toordinal_def)
qed

lemma toordinal_bounds:
  assumes "valid_date dt"
  shows "days_before_year (year dt) + 1 \<le> toordinal dt \<and> toordinal dt \<le> MAXORDINAL"
proof -
  have v: "1 \<le> month dt" "month dt \<le> 12" "1 \<le> day dt"
    "day dt \<le> days_in_month (year dt) (month dt)" "year dt \<le> 9999"
    using assms by (simp_all add: valid_date_def)
  have b: "days_before_year (year dt) + 1 \<le> toordinal dt"
    "toordinal dt \<le> days_before_year (year dt + 1)"
    using ymd2ord_bounds [OF v(1-4)] by (simp_all add: toordinal_def)
  have "year dt + 1 \<le> 10000" using v(5) by simp
  then have "days_before_year (year dt + 1) \<le> days_before_year 10000"
    by (rule days_before_year_mono)
  then show ?thesis using b by (simp add: days_before_year_def MAXORDINAL_def)
qed

lemma year_before:
  assumes "valid_date dt" and "y0 + 1 \<le> year dt" and "1 \<le> y0"
    and "k \<le> 365"  and "0 \<le> k"
  shows "valid_date (fromordinal (toordinal dt - k))
         \<and> toordinal (fromordinal (toordinal dt - k)) = toordinal dt - k
         \<and> y0 \<le> year (fromordinal (toordinal dt - k))"
proof -
  let ?n = "toordinal dt - k"
  have t: "days_before_year (year dt) + 1 \<le> toordinal dt" "toordinal dt \<le> MAXORDINAL"
    using toordinal_bounds [OF assms(1)] by simp_all
  have "days_before_year (y0 + 1) \<le> days_before_year (year dt)"
    using assms(2) by (rule days_before_year_mono)
  then have lo: "days_before_year y0 + 1 \<le> ?n"
    using t(1) assms(4) by (simp add: days_before_year_succ split: if_splits)
  have "days_before_year 1 \<le> days_before_year y0"
    using assms(3) by (rule days_before_year_mono)
  then have n1: "1 \<le> ?n" using lo by (simp add: days_before_year_def)
  have n2: "?n \<le> MAXORDINAL" using t(2) assms(5) by simp
  have fv: "valid_date (fromordinal ?n)" "toordinal (fromordinal ?n) = ?n"
    using fromordinal_valid [OF n1 n2] by simp_all
  have up: "?n \<le> days_before_year (year (fromordinal ?n) + 1)"
  proof -
    have v: "1 \<le> month (fromordinal ?n)" "month (fromordinal ?n) \<le> 12" "1 \<le> day (fromordinal ?n)"
      "day (fromordinal ?n) \<le> days_in_month (year (fromordinal ?n)) (month (fromordinal ?n))"
      using fv(1) by (simp_all add: valid_date_def)
    show ?thesis using ymd2ord_bounds [OF v] fv(2) by (simp add: toordinal_def)
  qed
  have "y0 \<le> year (fromordinal ?n)"
  proof (rule ccontr)
    assume "\<not> y0 \<le> year (fromordinal ?n)"
    then have "year (fromordinal ?n) + 1 \<le> y0" by simp
    then have "days_before_year (year (fromordinal ?n) + 1) \<le> days_before_year y0"
      by (rule days_before_year_mono)
    then show False using up lo by simp
  qed
  then show ?thesis using fv by simp
qed

lemma datetime_sub_days_365:
  assumes "valid_date dt" and "2 \<le> year dt"
  shows "datetime_sub_days dt 365 = Inr (fromordinal (toordinal dt - 365))"
proof -
  have "valid_date (fromordinal (toordinal dt - 365))
         \<and> toordinal (fromordinal (toordinal dt - 365)) = toordinal dt - 365"
    using year_before [OF assms(1), of 1 365] assms(2) by simp
  have t: "days_before_year (year dt) + 1 \<le> toordinal dt" "toordinal dt \<le> MAXORDINAL"
    using toordinal_bounds [OF assms(1)] by simp_all
  have "days_before_year 2 \<le> days_before_year (year dt)"
    using assms(2) by (rule days_before_year_mono)
  then have "365 < toordinal dt" using t(1) by (simp add: days_before_year_def)
  then show ?thesis using t(2) by (simp add: datetime_sub_days_def Let_def)
qed

lemma digit_char_digit: "d < 10 \<Longrightarrow> digit_char d \<in> decimal_digits"
  unfolding digit_char_def decimal_digits_def by (rule nth_mem) simp

lemma zero_padded_length: "length (zero_padded w n) = w"
  by (induction w arbitrary: n) simp_all

lemma zero_padded_digits: "c \<in> set (zero_padded w n) \<Longrightarrow> c \<in> decimal_digits"
proof (induction w arbitrary: n)
  case 0
  then show ?case by simp
next
  case (Suc w)
  have "digit_char (n mod 10) \<in> decimal_digits"
    by (rule digit_char_digit) simp
  then show ?case using Suc.prems Suc.IH [of "n div 10"] by auto
qed

lemma str_nat_digits: "c \<in> set (str_nat n) \<Longrightarrow> c \<in> decimal_digits"
proof (induction n rule: str_nat.induct)
  case (1 n)
  show ?case
  proof (cases "n < 10")
    case True
    then have "str_nat n = [digit_char n]" by (simp add: str_nat.simps)
    then show ?thesis using "1.prems" digit_char_digit [OF True] by simp
  next
    case False
    then have s: "str_nat n = str_nat (n div 10) @ [digit_char (n mod 10)]"
      by (subst str_nat.simps) simp
    have "digit_char (n mod 10) \<in> decimal_digits"
      by (rule digit_char_digit) simp
    then show ?thesis using "1.prems" "1.IH" [OF False] s by auto
  qed
qed

lemma str_nat_length_4:
  assumes "1000 \<le> n" and "n \<le> 9999"
  shows "length (str_nat n) = 4"
proof -
  have a: "\<not> n < 10" "\<not> n div 10 < 10" "\<not> n div 10 div 10 < 10" "n div 10 div 10 div 10 < 10"
    using assms by simp_all
  have "str_nat n = str_nat (n div 10) @ [digit_char (n mod 10)]"
    using a(1) by (subst str_nat.simps) simp
  moreover have "str_nat (n div 10) = str_nat (n div 10 div 10) @ [digit_char (n div 10 mod 10)]"
    using a(2) by (subst str_nat.simps) simp
  moreover have "str_nat (n div 10 div 10)
      = str_nat (n div 10 div 10 div 10) @ [digit_char (n div 10 div 10 mod 10)]"
    using a(3) by (subst str_nat.simps) simp
  moreover have "str_nat (n div 10 div 10 div 10) = [digit_char (n div 10 div 10 div 10)]"
    using a(4) by (subst str_nat.simps) simp
  ultimately show ?thesis by simp
qed

lemma strftime_Ymd_compact:
  assumes "1000 \<le> year dt" and "year dt \<le> 9999"
  shows "compact_date (strftime_Ymd dt)"
proof -
  have "length (str_nat (nat (year dt))) = 4"
    using assms by (intro str_nat_length_4) simp_all
  then have "length (strftime_Ymd dt) = 8"
    by (simp add: strftime_Ymd_def zero_padded_length)
  moreover have "c \<in> set (strftime_Ymd dt) \<Longrightarrow> c \<in> decimal_digits" for c
    unfolding strftime_Ymd_def using str_nat_digits zero_padded_digits by auto
  ultimately show ?thesis unfolding compact_date_def by blast
qed

lemma py_replace_hyphen: "py_replace ''-'' [] s = filter (\<lambda>c. c \<noteq> CHR ''-'') s"
  by (induction s) auto


section \<open>The request window of \<open>get_stock_daily\<close>\<close>

lemma body_requests:
  "get_stock_daily_body env self a symbol (Some s) ed = (r, effects) \<Longrightarrow>
   daily_requests effects =
     [(normalize_symbol symbol, py_replace ''-'' [] s,
       case ed of None \<Rightarrow> strftime_Ymd (now env) | Some e \<Rightarrow> py_replace ''-'' [] e)]"
  by (auto simp: get_stock_daily_body_def Let_def split: sum.splits option.splits if_splits)

lemma body_requests_default:
  "datetime_sub_days (now env) 365 = Inr d \<Longrightarrow>
   get_stock_daily_body env self a symbol None ed = (r, effects) \<Longrightarrow>
   daily_requests effects =
     [(normalize_symbol symbol, strftime_Ymd d,
       case ed of None \<Rightarrow> strftime_Ymd (now env) | Some e \<Rightarrow> py_replace ''-'' [] e)]"
  by (auto simp: get_stock_daily_body_def Let_def split: sum.splits option.splits if_splits)

lemma get_stock_daily_effects:
  "api self = Some a \<Longrightarrow> connected self \<Longrightarrow>
   snd (get_stock_daily env self symbol sd ed) = snd (get_stock_daily_body env self a symbol sd ed)"
  by (simp add: get_stock_daily_def split: prod.splits sum.splits)

lemma example_dates:
  "toordinal \<lparr>year = 2026, month = 11, day = 4\<rparr> - 365 = 739559"
  "fromordinal 739559 = \<lparr>year = 2025, month = 11, day = 4\<rparr>"
  "strftime_Ymd \<lparr>year = 2025, month = 11, day = 4\<rparr> = ''20251104''"
  "strftime_Ymd \<lparr>year = 2026, month = 11, day = 4\<rparr> = ''20261104''"
  "valid_date \<lparr>year = 2026, month = 11, day = 4\<rparr>"
  by (simp_all add: toordinal_def ymd2ord_def days_before_year_def days_before_month_def
      DAYS_BEFORE_MONTH_def DAYS_IN_MONTH_def is_leap_def fromordinal_def ord2ymd_def
      month_day_def Let_def cycle_lengths strftime_Ymd_def str_nat.simps digit_char_def
      valid_date_def days_in_month_def numeral_2_eq_2)

text \<open>
  C6. On a connected provider whose clock reads a date of the calendar from year 2 on,
  \<open>get_stock_daily\<close> sends exactly one request to the remote \<open>daily\<close> endpoint, for the
  normalized symbol. With neither bound given, the request runs from the date 365 days
  before today (a date of the calendar whose day number is today's minus 365) to today,
  each formatted by \<open>%Y%m%d\<close>, which from year 1001 on is eight digits with no separator.
  A bound that is given is sent with every hyphen removed, so \<open>2024-01-05\<close> is sent as
  \<open>20240105\<close>.
\<close>

theorem get_stock_daily_window:
  assumes "api self = Some a" and "connected self"
    and "valid_date (now env)" and "2 \<le> year (now env)"
  shows "daily_requests (snd (get_stock_daily env self symbol None None))
           = [(normalize_symbol symbol,
               strftime_Ymd (fromordinal (toordinal (now env) - 365)),
               strftime_Ymd (now env))]
         \<and> valid_date (fromordinal (toordinal (now env) - 365))
         \<and> toordinal (fromordinal (toordinal (now env) - 365)) = toordinal (now env) - 365
         \<and> (1001 \<le> year (now env) \<longrightarrow>
              compact_date (strftime_Ymd (now env))
              \<and> compact_date (strftime_Ymd (fromordinal (toordinal (now env) - 365))))
         \<and> daily_requests (snd (get_stock_daily env self symbol (Some s) (Some e)))
           = [(normalize_symbol symbol,
               filter (\<lambda>c. c \<noteq> CHR ''-'') s, filter (\<lambda>c. c \<noteq> CHR ''-'') e)]
         \<and> daily_requests (snd (get_stock_daily env self symbol (Some s) None))
           = [(normalize_symbol symbol, filter (\<lambda>c. c \<noteq> CHR ''-'') s, strftime_Ymd (now env))]
         \<and> daily_requests (snd (get_stock_daily env self symbol None (Some e)))
           = [(normalize_symbol symbol,
               strftime_Ymd (fromordinal (toordinal (now env) - 365)),
               filter (\<lambda>c. c \<noteq> CHR ''-'') e)]"
proof -
  let ?start = "fromordinal (toordinal (now env) - 365)"
  have sub: "datetime_sub_days (now env) 365 = Inr ?start"
    using assms(3,4) by (rule datetime_sub_days_365)
  have eff: "snd (get_stock_daily env self symbol sd ed)
               = snd (get_stock_daily_body env self a symbol sd ed)" for sd ed
    using assms(1,2) by (rule get_stock_daily_effects)
  have dflt: "daily_requests (snd (get_stock_daily env self symbol None ed))
      = [(normalize_symbol symbol, strftime_Ymd ?start,
          case ed of None \<Rightarrow> strftime_Ymd (now env) | Some e \<Rightarrow> py_replace ''-'' [] e)]" for ed
    unfolding eff using body_requests_default [OF sub] by (metis prod.collapse)
  have given: "daily_requests (snd (get_stock_daily env self symbol (Some s) ed))
      = [(normalize_symbol symbol, py_replace ''-'' [] s,
          case ed of None \<Rightarrow> strftime_Ymd (now env) | Some e \<Rightarrow> py_replace ''-'' [] e)]" for ed
    unfolding eff using body_requests by (metis prod.collapse)
  have before: "valid_date ?start \<and> toordinal ?start = toordinal (now env) - 365"
    using year_before [OF assms(3), of 1 365] assms(4) by simp
  have fmt: "compact_date (strftime_Ymd (now env)) \<and> compact_date (strftime_Ymd ?start)"
    if y: "1001 \<le> year (now env)"
  proof -
    have "year (now env) \<le> 9999" using assms(3) by (simp add: valid_date_def)
    then have 1: "compact_date (strftime_Ymd (now env))"
      using y by (intro strftime_Ymd_compact) simp_all
    have "1000 \<le> year ?start"
      using year_before [OF assms(3), of 1000 365] y by simp
    moreover have "year ?start \<le> 9999" using before by (simp add: valid_date_def)
    ultimately have "compact_date (strftime_Ymd ?start)"
      by (rule strftime_Ymd_compact)
    then show ?thesis using 1 by simp
  qed
  show ?thesis
    using dflt [of None] dflt [of "Some e"] given [of None] given [of "Some e"] before fmt
    by (simp add: py_replace_hyphen)
qed

theorem get_stock_daily_window_witness:
  "daily_requests (snd (get_stock_daily example_env (provider_of failing_api) ''sh.600000'' None None))
     = [(''600000.SH'', ''20251104'', ''20261104'')]
   \<and> compact_date ''20251104'' \<and> compact_date ''20261104''
   \<and> daily_requests (snd (get_stock_daily example_env (provider_of failing_api) ''sh.600000''
        (Some ''2024-01-05'') (Some ''2024-12-31'')))
     = [(''600000.SH'', ''20240105'', ''20241231'')]"
proof -
  have a: "api (provider_of failing_api) = Some failing_api"
    and c: "connected (provider_of failing_api)"
    by (simp_all add: provider_of_def)
  have n: "now example_env = \<lparr>year = 2026, month = 11, day = 4\<rparr>"
    by (simp add: example_env_def)
  have v: "valid_date (now example_env)" and y: "2 \<le> year (now example_env)"
    and y1: "1001 \<le> year (now example_env)"
    unfolding n by (simp_all add: example_dates)
  have s: "normalize_symbol ''sh.600000'' = ''600000.SH''"
    by (simp add: normalize_symbol_def startswith_def)
  show ?thesis
    using get_stock_daily_window [OF a c v y, of "''sh.600000''" "''2024-01-05''" "''2024-12-31''"] y1
    unfolding n by (simp add: example_dates s)
qed


text \<open>
  What \<open>invoke\<close> returns after a dispatch that returned is an assistant message, the
  empty one when the result has no generation; an exception of the dispatch leaves
  \<open>invoke\<close> as it leaves \<open>_generate\<close>.
\<close>

lemma invoke_output:
  "(fst (invoke env self_model_name input stop kwargs) = Inr msg \<longrightarrow> message_type msg = AI)
   \<and> (super_generate env (invoke_messages input) stop (forwarded_kwargs kwargs) = Inl e \<longrightarrow>
        fst (invoke env self_model_name input stop kwargs) = Inl e)
   \<and> (super_generate env (invoke_messages input) stop (forwarded_kwargs kwargs) = Inr result
        \<and> generations result = [] \<longrightarrow>
        fst (invoke env self_model_name input stop kwargs) = Inr (AIMessage []))"
proof (intro conjI impI)
  assume "fst (invoke env self_model_name input stop kwargs) = Inr msg"
  then show "message_type msg = AI"
    by (auto simp: invoke_def Let_def split: sum.splits list.splits if_splits)
next
  assume "super_generate env (invoke_messages input) stop (forwarded_kwargs kwargs) = Inl e"
  then show "fst (invoke env self_model_name input stop kwargs) = Inl e"
    by (simp add: invoke_def generate_dispatch_raises Let_def)
next
  assume "super_generate env (invoke_messages input) stop (forwarded_kwargs kwargs) = Inr result
        \<and> generations result = []"
  then show "fst (invoke env self_model_name input stop kwargs) = Inr (AIMessage [])"
    by (simp add: invoke_def generate_returns_result Let_def)
qed

end
